theory Spec2Isabelle
  imports Complex_Main
begin

section \<open>Common conventions\<close>

text \<open>
  Python floats are modelled as \<^typ>\<open>real\<close> numbers; a numeric vector (a numpy row,
  a CasADi \<open>DM\<close> column) is a \<^typ>\<open>real list\<close>. An exception is a value of type
  \<open>error\<close>, and a routine that can raise returns \<open>error + 'a\<close> with \<open>Inl\<close> for the
  exception.
\<close>

datatype error =
    IndexError
  | KeyError string
  | AttributeError string
  | ValueError
  | TypeError
  | ZeroDivisionError
  | LibraryError string

definition bind_err :: "error + 'a \<Rightarrow> ('a \<Rightarrow> error + 'b) \<Rightarrow> error + 'b" where
  "bind_err r k = (case r of Inl e \<Rightarrow> Inl e | Inr v \<Rightarrow> k v)"

text \<open>\<open>xs[i]\<close> for a literal index \<open>i \<ge> 0\<close>: out of range raises.\<close>

definition getidx :: "real list \<Rightarrow> nat \<Rightarrow> error + real" where
  "getidx xs i = (if i < length xs then Inr (xs ! i) else Inl IndexError)"

section \<open>models/liftoff\_model/liftoff\_model.py\<close>

record liftoff_model =
  g :: real
  L :: real
  l :: real
  maxThrust :: real
  maxGimbal :: real
  m :: real
  I :: real
  nx :: nat
  nd :: nat
  nu :: nat
  x0 :: "real list"

text \<open>\<open>liftoff_model.__init__\<close>.\<close>

definition liftoff_model_init :: liftoff_model where
  "liftoff_model_init =
     \<lparr> g = 9.81,
       L = 20.0,
       l = 10.0,
       maxThrust = 300.0 * 10^3,
       maxGimbal = pi / 8,
       m = 20.0 * 10^3,
       I = 1 * 10^3,
       nx = 6,
       nd = 1,
       nu = 2,
       x0 = [0.0, 0.0, 0.0, 0.0, 0.0, 0.0] \<rparr>"

text \<open>
  \<open>liftoff_model.dynamics(self, x, u)\<close>. The reads \<open>x[0]\<close> .. \<open>x[5]\<close> and \<open>u[0]\<close> ..
  \<open>u[2]\<close> come first, in the source's order; the \<open>print(F_T)\<close> is not modelled.
  \<open>F_T\<close> and \<open>F_G\<close> are two-entry columns, read back by index.
\<close>

definition dynamics :: "liftoff_model \<Rightarrow> real list \<Rightarrow> real list \<Rightarrow> error + real list" where
  "dynamics self x u =
     bind_err (getidx x 0) (\<lambda>xPos.
     bind_err (getidx x 1) (\<lambda>yPos.
     bind_err (getidx x 2) (\<lambda>xVel.
     bind_err (getidx x 3) (\<lambda>yVel.
     bind_err (getidx x 4) (\<lambda>ang.
     bind_err (getidx x 5) (\<lambda>angVel.
     bind_err (getidx u 0) (\<lambda>T.
     bind_err (getidx u 1) (\<lambda>mu.
     bind_err (getidx u 2) (\<lambda>F_W.
       let sa = sin ang;
           ca = cos ang;
           sm = sin mu;
           cm = cos mu;
           F_T = [T * maxThrust self * (cm * sa - sm * ca),
                  T * maxThrust self * (cm * ca + sm * sa)];
           F_G = [0, - m self * g self];
           Torque = L self * F_W * ca + l self * (F_G ! 1) * sa;
           xAcc = (F_T ! 0 + F_W) / m self;
           yAcc = (F_T ! 1 + F_G ! 1) / m self;
           angAcc = Torque / I self;
           xdot = [xVel, yVel, xAcc, yAcc, angVel, angAcc]
       in Inr xdot)))))))))"

text \<open>
  The integrator \<open>rk4step_ode(f, x, u, h)\<close> and the cost integrator
  \<open>rk4step_L(l, L, x, u, h)\<close> are imported from \<open>integrators/rk4step.py\<close>, which is not
  among the source files: both are parameters of everything that calls them. (The step
  that the specification describes is defined after the scripts, as \<open>rk4step_ode\<close>.)
\<close>

type_synonym ode_step =
  "(real list \<Rightarrow> real list \<Rightarrow> real list) \<Rightarrow> real list \<Rightarrow> real list \<Rightarrow> real \<Rightarrow> real list"

type_synonym cost_step =
  "(real list \<Rightarrow> real list \<Rightarrow> real) \<Rightarrow> real \<Rightarrow> real list \<Rightarrow> real list \<Rightarrow> real \<Rightarrow> real"

subsection \<open>The script part of liftoff\_model.py (simulation and integration parameters, \<open>F\<close>)\<close>

definition liftoff_T :: real where
  "liftoff_T = 600.0"

definition liftoff_N :: nat where
  "liftoff_N = 100"

definition liftoff_DT :: real where
  "liftoff_DT = liftoff_T / real liftoff_N"

definition liftoff_nn :: nat where
  "liftoff_nn = 10"

definition liftoff_h :: real where
  "liftoff_h = liftoff_DT / real liftoff_nn"

text \<open>
  How a CasADi \<open>Function\<close> takes a numeric argument for an input column of \<open>n\<close> entries:
  a vector of \<open>n\<close> entries as it is, an empty one as zeros, a single number for every
  entry; any other size raises (a \<open>RuntimeError\<close>).
\<close>

definition casadi_arg :: "nat \<Rightarrow> real list \<Rightarrow> error + real list" where
  "casadi_arg n v =
     (if length v = n then Inr v
      else if v = [] then Inr (replicate n 0)
      else if length v = 1 then Inr (replicate n (v ! 0))
      else Inl (LibraryError ''RuntimeError''))"

text \<open>
  \<open>x = cas.MX.sym('x', spacecraft.nx, 1)\<close>, \<open>u = cas.MX.sym('u', spacecraft.nu +
  spacecraft.nd, 1)\<close> and \<open>f = cas.Function('f', [x,u], [spacecraft.dynamics(x,u)])\<close>: a
  call of \<open>f\<close> fits its arguments to these sizes and evaluates \<open>dynamics\<close> there.
\<close>

definition liftoff_f :: "liftoff_model \<Rightarrow> real list \<Rightarrow> real list \<Rightarrow> error + real list" where
  "liftoff_f spacecraft x u =
     bind_err (casadi_arg (nx spacecraft) x) (\<lambda>x'.
     bind_err (casadi_arg (nu spacecraft + nd spacecraft) u) (\<lambda>u'.
       dynamics spacecraft x' u'))"

text \<open>
  \<open>Xk = x; for k in range(nn): Xk = rk4step_ode(f, Xk, u, h)\<close>, then
  \<open>F = cas.Function('F', [x,u], [Xk])\<close>. A call of \<open>F\<close> fits its arguments to the sizes
  of \<open>x\<close> and \<open>u\<close> and runs the \<open>nn\<close> steps. Inside \<open>F\<close> the calls of \<open>f\<close> were made on
  symbolic columns when \<open>F\<close> was built, so they stand for the values of \<open>f\<close> on columns of
  the sizes of \<open>x\<close> and \<open>u\<close>, where \<open>f\<close> returns; the step is handed this function (the
  empty column stands for a call that does not return).
\<close>

definition liftoff_F ::
  "ode_step \<Rightarrow> liftoff_model \<Rightarrow> real list \<Rightarrow> real list \<Rightarrow> error + real list" where
  "liftoff_F rk4step_ode spacecraft x u =
     bind_err (casadi_arg (nx spacecraft) x) (\<lambda>x'.
     bind_err (casadi_arg (nu spacecraft + nd spacecraft) u) (\<lambda>u'.
       Inr (foldl (\<lambda>Xk k. rk4step_ode
                      (\<lambda>X U. case liftoff_f spacecraft X U of Inr xdot \<Rightarrow> xdot | Inl e \<Rightarrow> [])
                      Xk u' liftoff_h)
              x' [0..<liftoff_nn])))"

section \<open>utils/orbit\_animator.py\<close>

text \<open>
  A Python value as the animator handles it: a truth value, a number, a list of numbers,
  or an object of a library (a figure, an axes, a line, an animation), known by a name
  only. A dictionary and the attributes of \<open>self\<close> are maps from names to values.
\<close>

datatype pyval = VBool bool | VNum real | VList "real list" | VObj string

fun truthy :: "pyval \<Rightarrow> bool" where
  "truthy (VBool b) = b"
| "truthy (VNum r) = (r \<noteq> 0)"
| "truthy (VList xs) = (xs \<noteq> [])"
| "truthy (VObj n) = True"

definition dict_get :: "(string \<rightharpoonup> pyval) \<Rightarrow> string \<Rightarrow> error + pyval" where
  "dict_get d k = (case d k of None \<Rightarrow> Inl (KeyError k) | Some v \<Rightarrow> Inr v)"

definition getattr :: "(string \<rightharpoonup> pyval) \<Rightarrow> string \<Rightarrow> error + pyval" where
  "getattr self a = (case self a of None \<Rightarrow> Inl (AttributeError a) | Some v \<Rightarrow> Inr v)"

text \<open>\<open>v[i]\<close> on a value: a list is indexed as Python does (a negative index counts from the end).\<close>

fun py_index :: "pyval \<Rightarrow> int \<Rightarrow> error + real" where
  "py_index (VList ys) i =
     (if 0 \<le> i \<and> i < int (length ys) then Inr (ys ! nat i)
      else if i < 0 \<and> - int (length ys) \<le> i then Inr (ys ! nat (int (length ys) + i))
      else Inl IndexError)"
| "py_index v i = Inl TypeError"

text \<open>
  The calls into numpy and matplotlib. Each may raise; what each returns is not the
  repository's code, so the library is a parameter.
\<close>

record libs =
  np_amin :: "pyval \<Rightarrow> error + real"
  np_amax :: "pyval \<Rightarrow> error + real"
  np_arange :: "real \<Rightarrow> pyval \<Rightarrow> error + pyval"
  plt_figure :: "int \<Rightarrow> error + pyval"
  add_subplot :: "pyval \<Rightarrow> real \<times> real \<Rightarrow> real \<times> real \<Rightarrow> error + pyval"
  ax_grid :: "pyval \<Rightarrow> error + unit"
  ax_plot :: "pyval \<Rightarrow> error + pyval list"
  set_data :: "pyval \<Rightarrow> real list \<Rightarrow> real list \<Rightarrow> error + unit"
  FuncAnimation :: "pyval \<Rightarrow> pyval \<Rightarrow> real \<Rightarrow> error + pyval"
  anim_save :: "pyval \<Rightarrow> string \<Rightarrow> real \<Rightarrow> error + unit"
  plt_show :: "error + unit"

text \<open>The branch of \<open>__init__\<close> for Cartesian trajectories: six reads, six attributes.\<close>

definition init_cartesian ::
  "(string \<rightharpoonup> pyval) \<Rightarrow> (string \<rightharpoonup> pyval) \<Rightarrow> error + (string \<rightharpoonup> pyval)" where
  "init_cartesian self params =
     bind_err (dict_get params ''xPositions'') (\<lambda>v1.
     bind_err (dict_get params ''yPositions'') (\<lambda>v2.
     bind_err (dict_get params ''xVelocities'') (\<lambda>v3.
     bind_err (dict_get params ''yVelocities'') (\<lambda>v4.
     bind_err (dict_get params ''xForces'') (\<lambda>v5.
     bind_err (dict_get params ''yForces'') (\<lambda>v6.
       Inr (self(''xPositions'' \<mapsto> v1, ''yPositions'' \<mapsto> v2,
                 ''xVelocities'' \<mapsto> v3, ''yVelocities'' \<mapsto> v4,
                 ''xForces'' \<mapsto> v5, ''yForces'' \<mapsto> v6))))))))"

text \<open>
  The branch for polar trajectories: six reads into local variables; the stacking and
  the conversion are comments (\<open>TODO\<close>), so \<open>self\<close> is returned as it came.
\<close>

definition init_polar ::
  "(string \<rightharpoonup> pyval) \<Rightarrow> (string \<rightharpoonup> pyval) \<Rightarrow> error + (string \<rightharpoonup> pyval)" where
  "init_polar self params =
     bind_err (dict_get params ''rhos'') (\<lambda>rhos.
     bind_err (dict_get params ''thetas'') (\<lambda>thetas.
     bind_err (dict_get params ''rhoDots'') (\<lambda>rhoDots.
     bind_err (dict_get params ''thetaDots'') (\<lambda>thetaDots.
     bind_err (dict_get params ''rhoForces'') (\<lambda>rhoForces.
     bind_err (dict_get params ''thetaForces'') (\<lambda>thetaForces.
       Inr self))))))"

text \<open>
  The figure set-up that ends \<open>__init__\<close>: \<open>plt.figure(figNum)\<close>, then the arguments of
  \<open>add_subplot\<close> in the order Python evaluates them, then the call, then \<open>grid()\<close>.
\<close>

definition configure_figure ::
  "libs \<Rightarrow> (string \<rightharpoonup> pyval) \<Rightarrow> int \<Rightarrow> error + (string \<rightharpoonup> pyval)" where
  "configure_figure lib self figNum =
     (let margin = 2 in
      bind_err (plt_figure lib figNum) (\<lambda>fig.
      let self1 = self(''fig'' \<mapsto> fig) in
      bind_err (getattr self1 ''fig'') (\<lambda>the_fig.
      bind_err (getattr self1 ''xPositions'') (\<lambda>xp.
      bind_err (np_amin lib xp) (\<lambda>xmin.
      bind_err (getattr self1 ''xPositions'') (\<lambda>xp'.
      bind_err (np_amax lib xp') (\<lambda>xmax.
      bind_err (getattr self1 ''yPositions'') (\<lambda>yp.
      bind_err (np_amin lib yp) (\<lambda>ymin.
      bind_err (getattr self1 ''yPositions'') (\<lambda>yp'.
      bind_err (np_amax lib yp') (\<lambda>ymax.
      bind_err (add_subplot lib the_fig (xmin - margin, xmax + margin)
                                        (ymin - margin, ymax + margin)) (\<lambda>ax.
      let self2 = self1(''ax'' \<mapsto> ax) in
      bind_err (getattr self2 ''ax'') (\<lambda>the_ax.
      bind_err (ax_grid lib the_ax) (\<lambda>_.
        Inr self2))))))))))))))"

text \<open>\<open>orbit_animator.__init__(self, params, figNum)\<close>: the attributes of the new object.\<close>

definition orbit_animator_init ::
  "libs \<Rightarrow> (string \<rightharpoonup> pyval) \<Rightarrow> int \<Rightarrow> error + (string \<rightharpoonup> pyval)" where
  "orbit_animator_init lib params figNum =
     bind_err (dict_get params ''T'') (\<lambda>vT.
     bind_err (dict_get params ''N'') (\<lambda>vN.
     bind_err (dict_get params ''isCartesian'') (\<lambda>vC.
     let self = [''T'' \<mapsto> vT, ''N'' \<mapsto> vN, ''coordsAreCartesian'' \<mapsto> vC] in
     bind_err (getattr self ''coordsAreCartesian'') (\<lambda>c.
     bind_err (if truthy c then init_cartesian self params else init_polar self params)
       (\<lambda>self'. configure_figure lib self' figNum)))))"

text \<open>
  \<open>animation_init(self)\<close>: \<open>self.trajectory, = self.ax.plot(...)\<close> unpacks a list of one
  line (any other length raises a ValueError); returns the new attributes and the line.
\<close>

definition animation_init ::
  "libs \<Rightarrow> (string \<rightharpoonup> pyval) \<Rightarrow> error + ((string \<rightharpoonup> pyval) \<times> pyval)" where
  "animation_init lib self =
     bind_err (getattr self ''ax'') (\<lambda>ax.
     bind_err (ax_plot lib ax) (\<lambda>lines.
     bind_err (case lines of [line] \<Rightarrow> Inr line | _ \<Rightarrow> Inl ValueError) (\<lambda>line.
     let self1 = self(''trajectory'' \<mapsto> line) in
     bind_err (getattr self1 ''trajectory'') (\<lambda>tr.
     bind_err (set_data lib tr [] []) (\<lambda>_.
     bind_err (getattr self1 ''trajectory'') (\<lambda>tr'.
       Inr (self1, tr')))))))"

text \<open>\<open>animation_main(self, i)\<close>.\<close>

definition animation_main :: "libs \<Rightarrow> (string \<rightharpoonup> pyval) \<Rightarrow> int \<Rightarrow> error + pyval" where
  "animation_main lib self i =
     bind_err (getattr self ''xPositions'') (\<lambda>xp.
     bind_err (py_index xp i) (\<lambda>x1.
     bind_err (getattr self ''xPositions'') (\<lambda>xp'.
     bind_err (py_index xp' (i - 1)) (\<lambda>x2.
     let lineX = [x1, x2] in
     bind_err (getattr self ''yPositions'') (\<lambda>yp.
     bind_err (py_index yp i) (\<lambda>y1.
     bind_err (getattr self ''yPositions'') (\<lambda>yp'.
     bind_err (py_index yp' (i - 1)) (\<lambda>y2.
     let lineY = [y1, y2] in
     bind_err (getattr self ''trajectory'') (\<lambda>tr.
     bind_err (set_data lib tr lineX lineY) (\<lambda>_.
     bind_err (getattr self ''trajectory'') (\<lambda>tr'.
       Inr tr')))))))))))"

text \<open>
  \<open>run(self, fps, saveFile, fileName)\<close>. The arguments of \<open>FuncAnimation\<close> are evaluated
  first (\<open>self.fig\<close>, \<open>np.arange(1, self.N)\<close>, \<open>100/fps\<close>, which divides); the two callbacks
  are bound methods, which the library calls later from inside \<open>plt.show()\<close>.
\<close>

definition run :: "libs \<Rightarrow> (string \<rightharpoonup> pyval) \<Rightarrow> real \<Rightarrow> bool \<Rightarrow> string \<Rightarrow> error + unit" where
  "run lib self fps saveFile fileName =
     bind_err (getattr self ''fig'') (\<lambda>fig.
     bind_err (getattr self ''N'') (\<lambda>vN.
     bind_err (np_arange lib 1 vN) (\<lambda>frames.
     bind_err (if fps = 0 then Inl ZeroDivisionError else Inr (100 / fps)) (\<lambda>interval.
     bind_err (FuncAnimation lib fig frames interval) (\<lambda>anim.
     bind_err (if saveFile then anim_save lib anim fileName fps else Inr ()) (\<lambda>_.
       plt_show lib))))))"

text \<open>The script part: a trajectory of ten samples, the animator, \<open>animator.run(10)\<close>.\<close>

definition animator_params :: "string \<rightharpoonup> pyval" where
  "animator_params =
     [''T'' \<mapsto> VNum 10.0,
      ''N'' \<mapsto> VNum 10,
      ''isCartesian'' \<mapsto> VBool True,
      ''xPositions'' \<mapsto> VList [0,1,2,3,4,5,6,7,8,9],
      ''yPositions'' \<mapsto> VList [9,8,7,6,5,4,3,2,1,0],
      ''xVelocities'' \<mapsto> VList [1,1,1,1,1,1,1,1,1,1],
      ''yVelocities'' \<mapsto> VList [-1,-1,-1,-1,-1,-1,-1,-1,-1,-1],
      ''xForces'' \<mapsto> VList [0,0,0,0,0,0,0,0,0,0],
      ''yForces'' \<mapsto> VList [0,0,0,0,0,0,0,0,0,0]]"

definition orbit_animator_main :: "libs \<Rightarrow> error + unit" where
  "orbit_animator_main lib =
     bind_err (orbit_animator_init lib animator_params 0) (\<lambda>animator.
       run lib animator 10 False ''anim.mp4'')"

section \<open>main/main\_orbit\_2d\_polar.py\<close>

text \<open>
  The class \<open>orbit_2d_polar_model\<close> is imported from
  \<open>models/orbit_2d_polar_model\<close>, which is not among the source files. The
  attributes the script computes with are the fields of this record (the attributes it
  only prints are left out); their values are parameters. The script's \<open>print\<close>
  statements are not modelled.
\<close>

record orbit_2d_polar_model =
  nx :: nat
  nu :: nat
  x0_scaled :: "real list"
  me :: real
  m0 :: real
  mu :: real
  R :: real
  dynamics_scaled :: "real list \<Rightarrow> real list \<Rightarrow> real list"

subsection \<open>Simulation and integration parameters, terminal values\<close>

definition T :: real where
  "T = 600.0"

definition N :: nat where
  "N = 100"

definition DT :: real where
  "DT = T / real N"

definition nn :: nat where
  "nn = 10"

definition h :: real where
  "h = DT / real nn"

definition altitude_T :: real where
  "altitude_T = 20"

definition angVel_T :: "orbit_2d_polar_model \<Rightarrow> real" where
  "angVel_T spacecraft =
     10^6 * sqrt (mu spacecraft / (R spacecraft + 10^3 * altitude_T) ^ 3)"

subsection \<open>The integrators \<open>F\<close> and \<open>L\<close>\<close>

definition f :: "orbit_2d_polar_model \<Rightarrow> real list \<Rightarrow> real list \<Rightarrow> real list" where
  "f spacecraft x u = dynamics_scaled spacecraft x u"

text \<open>\<open>Xk = x; for k in range(nn): Xk = rk4step_ode(f, Xk, u, h)\<close>, then \<open>F\<close> maps \<open>(x,u)\<close> to \<open>Xk\<close>.\<close>

definition F :: "orbit_2d_polar_model \<Rightarrow> ode_step \<Rightarrow> real list \<Rightarrow> real list \<Rightarrow> real list" where
  "F spacecraft rk4step_ode x u =
     foldl (\<lambda>Xk k. rk4step_ode (f spacecraft) Xk u h) x [0..<nn]"

definition l :: "real list \<Rightarrow> real list \<Rightarrow> real" where
  "l x u = (u ! 0)^2 + (u ! 1)^2"

text \<open>\<open>Lk = 0; for k in range(nn): Lk = rk4step_L(l, Lk, x, u, h)\<close>, then \<open>L\<close> maps \<open>(x,u)\<close> to \<open>Lk\<close>.\<close>

definition L :: "cost_step \<Rightarrow> real list \<Rightarrow> real list \<Rightarrow> real" where
  "L rk4step_L x u = foldl (\<lambda>Lk k. rk4step_L l Lk x u h) 0 [0..<nn]"

subsection \<open>The initial guess by forward simulation\<close>

definition np_zeros :: "nat \<Rightarrow> real list" where
  "np_zeros n = replicate n 0"

definition np_ones :: "nat \<Rightarrow> real list" where
  "np_ones n = replicate n 1"

text \<open>\<open>xs[0:n] = ys\<close> with \<open>ys\<close> of \<open>n\<close> entries.\<close>

definition set_prefix :: "nat \<Rightarrow> real list \<Rightarrow> real list \<Rightarrow> real list" where
  "set_prefix n ys xs = ys @ drop n xs"

text \<open>\<open>A[:,j] = col\<close> on a matrix kept as the list of its rows.\<close>

definition set_column :: "nat \<Rightarrow> real list \<Rightarrow> real list list \<Rightarrow> real list list" where
  "set_column j col rows = map (\<lambda>(row, v). row[j := v]) (zip rows col)"

definition n_r_stop :: nat where
  "n_r_stop = 60"

definition n_theta_stop :: nat where
  "n_theta_stop = 85"

definition us_r :: "real list" where
  "us_r = set_prefix n_r_stop (map (\<lambda>v. 0.1075 * v) (np_ones n_r_stop)) (np_zeros N)"

definition us_theta :: "real list" where
  "us_theta = set_prefix n_theta_stop (map (\<lambda>v. 0.2 * v) (np_ones n_theta_stop)) (np_zeros N)"

definition us_init :: "orbit_2d_polar_model \<Rightarrow> real list list" where
  "us_init spacecraft =
     set_column 1 us_theta (set_column 0 us_r (replicate N (np_zeros (nu spacecraft))))"

text \<open>
  \<open>xs = DM.zeros((N+1, nx)); xs[0,:] = x0_scaled;
  for k in range(N): xs[k+1,:] = F(xs[k,:], us_init[k,:])\<close>, and \<open>xs_init = xs.full()\<close>.
\<close>

definition xs :: "orbit_2d_polar_model \<Rightarrow> ode_step \<Rightarrow> real list list" where
  "xs spacecraft rk4step_ode =
     foldl (\<lambda>rows k. rows[k + 1 := F spacecraft rk4step_ode (rows ! k) (us_init spacecraft ! k)])
       ((replicate (N + 1) (np_zeros (nx spacecraft)))[0 := x0_scaled spacecraft])
       [0..<N]"

definition xs_init :: "orbit_2d_polar_model \<Rightarrow> ode_step \<Rightarrow> real list list" where
  "xs_init spacecraft rk4step_ode = xs spacecraft rk4step_ode"

subsection \<open>Symbolic expressions\<close>

text \<open>
  The script builds the NLP from CasADi \<open>MX\<close> expressions. A symbol is known by the
  object \<open>MX.sym\<close> returned: \<open>U_sym k\<close> for \<open>MX.sym('U_' + str(k), nu, 1)\<close> and \<open>X_sym k\<close> for
  \<open>MX.sym('X_' + str(k), nx, 1)\<close>. A column is the list of its entries; an entry is a
  number, entry \<open>i\<close> of a symbol, entry \<open>i\<close> of a call of \<open>F\<close>, a call of \<open>L\<close>, a sum, a
  difference or a power. (The symbols \<open>X\<close> and \<open>U\<close> of lines 106--107 are never used.)
\<close>

datatype sym = U_sym nat | X_sym nat

datatype mx =
    Num real
  | Sym sym nat
  | F_call "mx list" "mx list" nat
  | L_call "mx list" "mx list"
  | Add mx mx
  | Sub mx mx
  | Pow mx nat

definition MX_sym :: "sym \<Rightarrow> nat \<Rightarrow> mx list" where
  "MX_sym s n = map (Sym s) [0..<n]"

text \<open>\<open>F(x, u)\<close> on symbolic arguments: the column of the \<open>nx\<close> entries of the call.\<close>

definition F_mx :: "orbit_2d_polar_model \<Rightarrow> mx list \<Rightarrow> mx list \<Rightarrow> mx list" where
  "F_mx spacecraft x u = map (F_call x u) [0..<nx spacecraft]"

text \<open>\<open>a - b\<close> on two columns of the same size, entry by entry.\<close>

definition minus_mx :: "mx list \<Rightarrow> mx list \<Rightarrow> mx list" where
  "minus_mx a b = map (\<lambda>(p, q). Sub p q) (zip a b)"

text \<open>
  The value of an expression, given the functions that \<open>F\<close> and \<open>L\<close> stand for and a
  value for every entry of every symbol.
\<close>

fun eval ::
  "(real list \<Rightarrow> real list \<Rightarrow> real list) \<Rightarrow> (real list \<Rightarrow> real list \<Rightarrow> real)
     \<Rightarrow> (sym \<Rightarrow> nat \<Rightarrow> real) \<Rightarrow> mx \<Rightarrow> real" where
  "eval Ff Lf env (Num r) = r"
| "eval Ff Lf env (Sym s i) = env s i"
| "eval Ff Lf env (F_call x u i) = Ff (map (eval Ff Lf env) x) (map (eval Ff Lf env) u) ! i"
| "eval Ff Lf env (L_call x u) = Lf (map (eval Ff Lf env) x) (map (eval Ff Lf env) u)"
| "eval Ff Lf env (Add a b) = eval Ff Lf env a + eval Ff Lf env b"
| "eval Ff Lf env (Sub a b) = eval Ff Lf env a - eval Ff Lf env b"
| "eval Ff Lf env (Pow a n) = eval Ff Lf env a ^ n"

text \<open>A bound on a decision variable: a number, \<open>-cas.inf\<close> or \<open>cas.inf\<close>.\<close>

datatype bound = Neg_inf | Finite real | Inf

subsection \<open>The NLP\<close>

record nlp_vars =
  w :: "mx list"
  w0 :: "real list"
  lbw :: "bound list"
  ubw :: "bound list"
  J :: mx
  g :: "mx list"
  lbg :: "real list"
  ubg :: "real list"
  Xk :: "mx list"
  Xk_end :: "mx list"

text \<open>
  The variables before the loop: the empty NLP, and \<open>Xk = xs_init[0,:]\<close>, a column of
  numbers. \<open>Xk_end\<close> is not yet bound, which the empty column stands for.
\<close>

definition nlp_start :: "orbit_2d_polar_model \<Rightarrow> ode_step \<Rightarrow> nlp_vars" where
  "nlp_start spacecraft rk4step_ode =
     \<lparr> w = [], w0 = [], lbw = [], ubw = [], J = Num 0, g = [], lbg = [], ubg = [],
       Xk = map Num (xs_init spacecraft rk4step_ode ! 0),
       Xk_end = [] \<rparr>"

text \<open>The body of \<open>for k in range(N)\<close>, statement by statement.\<close>

definition nlp_step :: "orbit_2d_polar_model \<Rightarrow> ode_step \<Rightarrow> nlp_vars \<Rightarrow> nat \<Rightarrow> nlp_vars" where
  "nlp_step spacecraft rk4step_ode v k =
     (let Uk = MX_sym (U_sym k) (nu spacecraft);
          w1 = w v @ Uk;
          lbw1 = lbw v @ [Neg_inf, Neg_inf];
          ubw1 = ubw v @ [Inf, Inf];
          w01 = w0 v @ us_init spacecraft ! k;
          g1 = g v @ [Add (Pow (Uk ! 0) 2) (Pow (Uk ! 1) 2)];
          lbg1 = lbg v @ [0];
          ubg1 = ubg v @ [1];
          Xk_end1 = F_mx spacecraft (Xk v) Uk;
          J1 = Add (J v) (L_call (Xk v) Uk);
          Xk1 = MX_sym (X_sym (k + 1)) (nx spacecraft);
          w2 = w1 @ Xk1;
          lbw_k = [Finite 0, Neg_inf, Neg_inf, Neg_inf, Finite (me spacecraft)];
          ubw_k = [Inf, Inf, Inf, Inf, Finite (m0 spacecraft)];
          lbw2 = lbw1 @ lbw_k;
          ubw2 = ubw1 @ ubw_k;
          w02 = w01 @ xs_init spacecraft rk4step_ode ! (k + 1);
          g2 = g1 @ minus_mx Xk_end1 Xk1;
          lbg2 = lbg1 @ np_zeros (nx spacecraft);
          ubg2 = ubg1 @ np_zeros (nx spacecraft)
      in \<lparr> w = w2, w0 = w02, lbw = lbw2, ubw = ubw2, J = J1, g = g2, lbg = lbg2, ubg = ubg2,
           Xk = Xk1, Xk_end = Xk_end1 \<rparr>)"

definition nlp_loop :: "orbit_2d_polar_model \<Rightarrow> ode_step \<Rightarrow> nat \<Rightarrow> nlp_vars" where
  "nlp_loop spacecraft rk4step_ode n =
     foldl (nlp_step spacecraft rk4step_ode) (nlp_start spacecraft rk4step_ode) [0..<n]"

text \<open>The three terminal constraints, on entries 0, 1 and 3 of the last \<open>Xk_end\<close>.\<close>

definition nlp_terminal :: "orbit_2d_polar_model \<Rightarrow> nlp_vars \<Rightarrow> nlp_vars" where
  "nlp_terminal spacecraft v =
     (let g1 = g v @ [Xk_end v ! 0];
          lbg1 = lbg v @ [altitude_T];
          ubg1 = ubg v @ [altitude_T];
          g2 = g1 @ [Xk_end v ! 1];
          lbg2 = lbg1 @ [0];
          ubg2 = ubg1 @ [0];
          g3 = g2 @ [Xk_end v ! 3];
          lbg3 = lbg2 @ [angVel_T spacecraft];
          ubg3 = ubg2 @ [angVel_T spacecraft]
      in v\<lparr> g := g3, lbg := lbg3, ubg := ubg3 \<rparr>)"

definition ocp :: "orbit_2d_polar_model \<Rightarrow> ode_step \<Rightarrow> nlp_vars" where
  "ocp spacecraft rk4step_ode = nlp_terminal spacecraft (nlp_loop spacecraft rk4step_ode N)"

text \<open>The dictionary \<open>nlp\<close> and the dictionary the solver is called with.\<close>

record nlp_dict =
  nlp_f :: mx
  nlp_x :: "mx list"
  nlp_g :: "mx list"

record solver_args =
  arg_x0 :: "real list"
  arg_lbx :: "bound list"
  arg_ubx :: "bound list"
  arg_lbg :: "real list"
  arg_ubg :: "real list"

definition nlp :: "orbit_2d_polar_model \<Rightarrow> ode_step \<Rightarrow> nlp_dict" where
  "nlp spacecraft rk4step_ode =
     (let v = ocp spacecraft rk4step_ode in \<lparr> nlp_f = J v, nlp_x = w v, nlp_g = g v \<rparr>)"

definition solver_call :: "orbit_2d_polar_model \<Rightarrow> ode_step \<Rightarrow> solver_args" where
  "solver_call spacecraft rk4step_ode =
     (let v = ocp spacecraft rk4step_ode
      in \<lparr> arg_x0 = w0 v, arg_lbx = lbw v, arg_ubx = ubw v, arg_lbg = lbg v, arg_ubg = ubg v \<rparr>)"

text \<open>
  The end of the script: \<open>solver = cas.nlpsol('solver', 'ipopt', nlp)\<close>, then
  \<open>sol = solver({...})\<close>. Both are calls into CasADi and may raise; \<open>nlpsol\<close> is a
  parameter. The calls before them are modelled at sizes that fit (\<open>2 \<le> nu\<close>,
  \<open>4 \<le> nx\<close>, the initial state and one step of \<open>nx\<close> entries), where they return.
\<close>

definition main_orbit_2d_polar ::
  "orbit_2d_polar_model \<Rightarrow> ode_step \<Rightarrow> (nlp_dict \<Rightarrow> error + (solver_args \<Rightarrow> error + 'sol))
     \<Rightarrow> error + 'sol" where
  "main_orbit_2d_polar spacecraft rk4step_ode nlpsol =
     bind_err (nlpsol (nlp spacecraft rk4step_ode)) (\<lambda>solver.
       solver (solver_call spacecraft rk4step_ode))"

text \<open>
  How the solver reads the NLP: entry \<open>j\<close> of the decision vector is the value of the
  symbol entry at position \<open>j\<close> of \<open>x\<close>.
\<close>

definition valuation :: "mx list \<Rightarrow> real list \<Rightarrow> sym \<Rightarrow> nat \<Rightarrow> real" where
  "valuation ws vs s i = (case map_of (zip ws vs) (Sym s i) of Some r \<Rightarrow> r | None \<Rightarrow> 0)"

section \<open>integrators/rk4step.py\<close>

text \<open>The sum of two columns of the same size, and a column times a number.\<close>

definition vadd :: "real list \<Rightarrow> real list \<Rightarrow> real list" where
  "vadd a b = map (\<lambda>(p, q). p + q) (zip a b)"

definition smul :: "real \<Rightarrow> real list \<Rightarrow> real list" where
  "smul c a = map (\<lambda>p. c * p) a"

text \<open>
  Modelled from the spec: \<open>rk4step_ode(f, x, u, h)\<close> of \<open>integrators/rk4step.py\<close>, which
  is not among the source files. The specification calls it a fixed-step explicit
  integrator, the scripts a Runge-Kutta 4 step: one step of the classical explicit
  fourth-order Runge-Kutta method, with the step size \<open>h\<close> it is given and the control
  held constant over the step.
\<close>

definition rk4step_ode :: ode_step where
  "rk4step_ode fn x u dt =
     (let k1 = fn x u;
          k2 = fn (vadd x (smul (dt / 2) k1)) u;
          k3 = fn (vadd x (smul (dt / 2) k2)) u;
          k4 = fn (vadd x (smul dt k3)) u
      in vadd x (smul (dt / 6) (vadd (vadd (vadd k1 (smul 2 k2)) (smul 2 k3)) k4)))"

section \<open>Concrete parameters\<close>

text \<open>
  Values for the parameters, at which the general statements below are instantiated: a
  forward Euler step for the integrator, a spacecraft that rests on the ground (all
  derivatives zero), and libraries whose calls all return.
\<close>

definition euler_step :: ode_step where
  "euler_step fn x u dt = map (\<lambda>(a, b). a + dt * b) (zip x (fn x u))"

definition resting_spacecraft :: orbit_2d_polar_model where
  "resting_spacecraft =
     \<lparr> nx = 5, nu = 2, x0_scaled = [0, 0, 0, 0, 1], me = 1 / 2, m0 = 1, mu = 1, R = 1,
       dynamics_scaled = (\<lambda>x u. [0, 0, 0, 0, 0]) \<rparr>"

definition quiet_libs :: libs where
  "quiet_libs =
     \<lparr> np_amin = (\<lambda>v. Inr 0), np_amax = (\<lambda>v. Inr 9),
       np_arange = (\<lambda>a b. Inr (VList [1, 2, 3, 4, 5, 6, 7, 8, 9])),
       plt_figure = (\<lambda>n. Inr (VObj ''figure'')),
       add_subplot = (\<lambda>fig xlim ylim. Inr (VObj ''axes'')),
       ax_grid = (\<lambda>ax. Inr ()),
       ax_plot = (\<lambda>ax. Inr [VObj ''line'']),
       set_data = (\<lambda>line a b. Inr ()),
       FuncAnimation = (\<lambda>fig frames interval. Inr (VObj ''animation'')),
       anim_save = (\<lambda>anim name fps. Inr ()),
       plt_show = Inr () \<rparr>"

section \<open>Properties of the liftoff model\<close>

lemma bind_err_Inl [simp]: "bind_err (Inl e) k = Inl e"
  by (simp add: bind_err_def)

lemma bind_err_Inr [simp]: "bind_err (Inr v) k = k v"
  by (simp add: bind_err_def)

lemma dynamics_Inr:
  assumes "6 \<le> length x" and "3 \<le> length u"
  shows "dynamics self x u =
     Inr [x ! 2, x ! 3,
          (u ! 0 * liftoff_model.maxThrust self
             * (cos (u ! 1) * sin (x ! 4) - sin (u ! 1) * cos (x ! 4)) + u ! 2)
            / liftoff_model.m self,
          (u ! 0 * liftoff_model.maxThrust self
             * (cos (u ! 1) * cos (x ! 4) + sin (u ! 1) * sin (x ! 4))
             + (- liftoff_model.m self * liftoff_model.g self))
            / liftoff_model.m self,
          x ! 5,
          (liftoff_model.L self * (u ! 2) * cos (x ! 4)
             + liftoff_model.l self * (- liftoff_model.m self * liftoff_model.g self)
               * sin (x ! 4))
            / liftoff_model.I self]"
proof -
  have x: "getidx x 0 = Inr (x ! 0)" "getidx x 1 = Inr (x ! 1)" "getidx x 2 = Inr (x ! 2)"
    "getidx x 3 = Inr (x ! 3)" "getidx x 4 = Inr (x ! 4)" "getidx x 5 = Inr (x ! 5)"
    using assms(1) by (auto simp: getidx_def)
  have u: "getidx u 0 = Inr (u ! 0)" "getidx u 1 = Inr (u ! 1)" "getidx u 2 = Inr (u ! 2)"
    using assms(2) by (auto simp: getidx_def)
  show ?thesis
    unfolding dynamics_def x u by (simp add: bind_err_def Let_def)
qed

text \<open>
  C8. In \<open>liftoff_model.dynamics\<close> the angular acceleration (entry 5 of the returned
  derivative) does not depend on the thrust \<open>u[0]\<close> or the gimbal angle \<open>u[1]\<close>: for a
  state \<open>x\<close> (six entries) and two inputs \<open>u\<close>, \<open>u'\<close> (three entries each) with the same
  wind force \<open>u[2]\<close>, both calls return, and entry 5 of both results is
  \<open>(L*F_W*cos(ang) - l*m*g*sin(ang)) / I\<close>.
\<close>

theorem dynamics_angAcc_independent_of_thrust_and_gimbal:
  assumes "6 \<le> length x" and "3 \<le> length u" and "3 \<le> length u'" and "u ! 2 = u' ! 2"
  shows "\<exists>xdot xdot'. dynamics self x u = Inr xdot \<and> dynamics self x u' = Inr xdot'
           \<and> length xdot = 6 \<and> length xdot' = 6
           \<and> xdot ! 5 = xdot' ! 5
           \<and> xdot ! 5 =
               (liftoff_model.L self * (u ! 2) * cos (x ! 4)
                  - liftoff_model.l self * liftoff_model.m self * liftoff_model.g self
                    * sin (x ! 4))
                 / liftoff_model.I self"
  using assms by (simp add: dynamics_Inr)

theorem dynamics_angAcc_independent_witness:
  "\<exists>xdot xdot'. dynamics liftoff_model_init [0, 0, 0, 0, 0, 0] [0.7, 0, 0] = Inr xdot
      \<and> dynamics liftoff_model_init [0, 0, 0, 0, 0, 0] [0.2, 0.01, 0] = Inr xdot'
      \<and> length xdot = 6 \<and> length xdot' = 6
      \<and> xdot ! 5 = xdot' ! 5
      \<and> xdot ! 5 =
          (liftoff_model.L liftoff_model_init * ([0.7, 0, 0] ! 2) * cos ([0, 0, 0, 0, 0, 0] ! 4)
             - liftoff_model.l liftoff_model_init * liftoff_model.m liftoff_model_init
               * liftoff_model.g liftoff_model_init * sin ([0, 0, 0, 0, 0, 0] ! 4))
            / liftoff_model.I liftoff_model_init"
  using dynamics_angAcc_independent_of_thrust_and_gimbal
          [of "[0, 0, 0, 0, 0, 0]" "[0.7, 0, 0]" "[0.2, 0.01, 0]" liftoff_model_init]
  by simp

section \<open>Properties of the integrators\<close>

lemma foldl_upt_funpow: "foldl (\<lambda>a k. G a) a0 [0..<n] = (G ^^ n) a0"
  by (induction n) simp_all

lemma h_value: "h = 3 / 5"
  by (simp add: h_def DT_def T_def N_def nn_def)

lemma liftoff_h_value: "liftoff_h = 3 / 5"
  by (simp add: liftoff_h_def liftoff_DT_def liftoff_T_def liftoff_N_def liftoff_nn_def)

lemma length_vadd [simp]: "length (vadd a b) = min (length a) (length b)"
  by (simp add: vadd_def)

lemma length_smul [simp]: "length (smul c a) = length a"
  by (simp add: smul_def)

lemma casadi_arg_fits [simp]: "length v = n \<Longrightarrow> casadi_arg n v = Inr v"
  by (simp add: casadi_arg_def)

lemma rk4step_ode_cong:
  assumes "\<And>X. length X = d \<Longrightarrow> fa X u = fb X u \<and> length (fb X u) = d" and "length x = d"
  shows "rk4step_ode fa x u dt = rk4step_ode fb x u dt \<and> length (rk4step_ode fb x u dt) = d"
proof -
  define k1 where "k1 = fb x u"
  define k2 where "k2 = fb (vadd x (smul (dt / 2) k1)) u"
  define k3 where "k3 = fb (vadd x (smul (dt / 2) k2)) u"
  define k4 where "k4 = fb (vadd x (smul dt k3)) u"
  have 1: "fa x u = k1" "length k1 = d"
    using assms by (simp_all add: k1_def)
  have 2: "fa (vadd x (smul (dt / 2) k1)) u = k2" "length k2 = d"
    using assms 1 by (simp_all add: k2_def)
  have 3: "fa (vadd x (smul (dt / 2) k2)) u = k3" "length k3 = d"
    using assms 2 by (simp_all add: k3_def)
  have 4: "fa (vadd x (smul dt k3)) u = k4" "length k4 = d"
    using assms 3 by (simp_all add: k4_def)
  have a: "rk4step_ode fa x u dt =
      vadd x (smul (dt / 6) (vadd (vadd (vadd k1 (smul 2 k2)) (smul 2 k3)) k4))"
    by (simp add: rk4step_ode_def Let_def 1 2 3 4)
  have b: "rk4step_ode fb x u dt =
      vadd x (smul (dt / 6) (vadd (vadd (vadd k1 (smul 2 k2)) (smul 2 k3)) k4))"
    by (simp add: rk4step_ode_def Let_def k1_def k2_def k3_def k4_def)
  show ?thesis
    using assms(2) 1 2 3 4 by (simp add: a b)
qed

lemma rk4_funpow_cong:
  assumes "\<And>X. length X = d \<Longrightarrow> fa X u = fb X u \<and> length (fb X u) = d" and "length x = d"
  shows "((\<lambda>Xk. rk4step_ode fa Xk u dt) ^^ n) x = ((\<lambda>Xk. rk4step_ode fb Xk u dt) ^^ n) x
       \<and> length (((\<lambda>Xk. rk4step_ode fb Xk u dt) ^^ n) x) = d"
proof (induction n)
  case 0
  then show ?case by (simp add: assms(2))
next
  case (Suc n)
  then show ?case
    using rk4step_ode_cong [where d = d and fa = fa and u = u and fb = fb
        and x = "((\<lambda>Xk. rk4step_ode fb Xk u dt) ^^ n) x" and dt = dt] assms(1)
    by simp
qed

lemma liftoff_f_on_shape:
  assumes "liftoff_model.nx rocket = 6" and "liftoff_model.nu rocket + nd rocket = 3"
    and "length X = 6" and "length U = 3"
  shows "liftoff_f rocket X U = dynamics rocket X U"
    and "(case liftoff_f rocket X U of Inr xdot \<Rightarrow> xdot | Inl e \<Rightarrow> []) = projr (dynamics rocket X U)"
    and "length (projr (dynamics rocket X U)) = 6"
  using assms by (simp_all add: liftoff_f_def dynamics_Inr bind_err_def)

lemma rk4_linear_test:
  "rk4step_ode (\<lambda>X U. [a * X ! 0]) [y] u dt
     = [y * (1 + a * dt + (a * dt)^2 / 2 + (a * dt)^3 / 6 + (a * dt)^4 / 24)]"
  by (simp add: rk4step_ode_def Let_def vadd_def smul_def power2_eq_square power3_eq_cube
        power4_eq_xxxx field_simps)

text \<open>
  C3. The continuous dynamics are discretized with a fixed-step explicit integrator: the
  discrete map \<open>F\<close> over one interval is the \<open>nn\<close>-fold composition (\<open>nn = 10\<close>) of the one
  explicit Runge-Kutta 4 step \<open>rk4step_ode\<close> on the dynamics, with the constant step size
  \<open>h = (T/N)/nn = 3/5\<close> in every sub-step and for every interval. So it is for the
  scaled dynamics of the orbit script, and for \<open>dynamics\<close> in the script part of the
  liftoff model, on a state of six and an input of three entries (where \<open>dynamics\<close>
  returns a derivative of six entries, which \<open>projr\<close> takes out of its \<open>Inr\<close>). The step
  is of order four: on the linear equation \<open>x' = a x\<close> one step multiplies the state by
  the Taylor polynomial of degree four of \<open>exp (a h)\<close>.
\<close>

theorem F_is_fixed_step_composition:
  "F sc rk4step_ode x u = ((\<lambda>Xk. rk4step_ode (dynamics_scaled sc) Xk u (3 / 5)) ^^ 10) x
   \<and> (liftoff_model.nx rocket = 6 \<and> liftoff_model.nu rocket + nd rocket = 3
        \<and> length x = 6 \<and> length u = 3 \<longrightarrow>
        liftoff_F rk4step_ode rocket x u =
          Inr (((\<lambda>Xk. rk4step_ode (\<lambda>X U. projr (dynamics rocket X U)) Xk u (3 / 5)) ^^ 10) x))
   \<and> (length X = 6 \<and> length U = 3 \<longrightarrow>
        (\<exists>xdot. dynamics rocket X U = Inr xdot \<and> length xdot = 6))
   \<and> rk4step_ode (\<lambda>X U. [a * X ! 0]) [y] u dt
       = [y * (1 + a * dt + (a * dt)^2 / 2 + (a * dt)^3 / 6 + (a * dt)^4 / 24)]
   \<and> nn = 10 \<and> h = (T / real N) / real nn \<and> h = 3 / 5
   \<and> liftoff_nn = 10 \<and> liftoff_h = (liftoff_T / real liftoff_N) / real liftoff_nn
   \<and> liftoff_h = 3 / 5"
proof -
  have orbit: "F sc rk4step_ode x u
      = ((\<lambda>Xk. rk4step_ode (dynamics_scaled sc) Xk u (3 / 5)) ^^ 10) x"
  proof -
    have "f sc = dynamics_scaled sc" by (rule ext)+ (simp add: f_def)
    then show ?thesis by (simp add: F_def foldl_upt_funpow nn_def h_value)
  qed
  have liftoff: "liftoff_F rk4step_ode rocket x u =
          Inr (((\<lambda>Xk. rk4step_ode (\<lambda>X U. projr (dynamics rocket X U)) Xk u (3 / 5)) ^^ 10) x)"
    if shape: "liftoff_model.nx rocket = 6" "liftoff_model.nu rocket + nd rocket = 3"
      "length x = 6" "length u = 3"
  proof -
    have "((\<lambda>Xk. rk4step_ode
              (\<lambda>X U. case liftoff_f rocket X U of Inr xdot \<Rightarrow> xdot | Inl e \<Rightarrow> []) Xk u (3 / 5)) ^^ 10) x
        = ((\<lambda>Xk. rk4step_ode (\<lambda>X U. projr (dynamics rocket X U)) Xk u (3 / 5)) ^^ 10) x"
      using rk4_funpow_cong [where d = 6
          and fa = "\<lambda>X U. case liftoff_f rocket X U of Inr xdot \<Rightarrow> xdot | Inl e \<Rightarrow> []"
          and u = u and fb = "\<lambda>X U. projr (dynamics rocket X U)" and x = x and dt = "3 / 5"
          and n = 10]
        liftoff_f_on_shape(2,3) [OF shape(1,2) _ shape(4)] shape(3)
      by simp
    then show ?thesis
      using shape by (simp add: liftoff_F_def foldl_upt_funpow liftoff_nn_def liftoff_h_value)
  qed
  have steps: "nn = 10" "h = (T / real N) / real nn" "liftoff_nn = 10"
    "liftoff_h = (liftoff_T / real liftoff_N) / real liftoff_nn"
    by (simp_all add: nn_def liftoff_nn_def h_def DT_def liftoff_h_def liftoff_DT_def)
  have returns: "\<exists>xdot. dynamics rocket X U = Inr xdot \<and> length xdot = 6"
    if "length X = 6" and "length U = 3"
    using that by (simp add: dynamics_Inr)
  from orbit liftoff returns rk4_linear_test steps h_value liftoff_h_value
  show ?thesis by blast
qed

theorem F_is_fixed_step_composition_witness:
  "liftoff_model.nx liftoff_model_init = 6
   \<and> liftoff_model.nu liftoff_model_init + nd liftoff_model_init = 3
   \<and> liftoff_F rk4step_ode liftoff_model_init [0, 0, 0, 0, 0, 0] [0.7, 0, 0] =
       Inr (((\<lambda>Xk. rk4step_ode (\<lambda>X U. projr (dynamics liftoff_model_init X U)) Xk [0.7, 0, 0]
                    (3 / 5)) ^^ 10) [0, 0, 0, 0, 0, 0])"
proof -
  have a: "liftoff_model.nx liftoff_model_init = 6"
    "liftoff_model.nu liftoff_model_init + nd liftoff_model_init = 3"
    by (simp_all add: liftoff_model_init_def)
  from F_is_fixed_step_composition [where rocket = liftoff_model_init
      and x = "[0, 0, 0, 0, 0, 0]" and u = "[0.7, 0, 0]"] a
  show ?thesis by simp
qed

section \<open>Properties of the animator\<close>

lemma bind_err_eq_Inr:
  "bind_err r k = Inr y \<longleftrightarrow> (\<exists>v. r = Inr v \<and> k v = Inr y)"
  by (cases r) simp_all

lemma dict_get_Some [simp]: "d k = Some v \<Longrightarrow> dict_get d k = Inr v"
  by (simp add: dict_get_def)

lemma dict_get_None [simp]: "d k = None \<Longrightarrow> dict_get d k = Inl (KeyError k)"
  by (simp add: dict_get_def)

lemma getattr_Some [simp]: "self a = Some v \<Longrightarrow> getattr self a = Inr v"
  by (simp add: getattr_def)

lemma getattr_None [simp]: "self a = None \<Longrightarrow> getattr self a = Inl (AttributeError a)"
  by (simp add: getattr_def)

lemma init_polar_result: "init_polar self params = Inr self' \<Longrightarrow> self' = self"
  by (auto simp: init_polar_def bind_err_eq_Inr)

lemma init_polar_all_keys:
  assumes "params ''rhos'' \<noteq> None" "params ''thetas'' \<noteq> None" "params ''rhoDots'' \<noteq> None"
    "params ''thetaDots'' \<noteq> None" "params ''rhoForces'' \<noteq> None" "params ''thetaForces'' \<noteq> None"
  shows "init_polar self params = Inr self"
  using assms by (auto simp: init_polar_def)

lemma configure_figure_needs_xPositions:
  "self ''xPositions'' = None \<Longrightarrow> \<exists>e. configure_figure lib self figNum = Inl e"
  by (cases "plt_figure lib figNum") (simp_all add: configure_figure_def)

lemma configure_figure_AttributeError:
  "self ''xPositions'' = None \<Longrightarrow> plt_figure lib figNum = Inr fig
     \<Longrightarrow> configure_figure lib self figNum = Inl (AttributeError ''xPositions'')"
  by (simp add: configure_figure_def)

lemma init_polar_branch:
  assumes "params ''T'' = Some vT" "params ''N'' = Some vN" "params ''isCartesian'' = Some c"
    "\<not> truthy c"
  shows "orbit_animator_init lib params figNum =
     bind_err (init_polar [''T'' \<mapsto> vT, ''N'' \<mapsto> vN, ''coordsAreCartesian'' \<mapsto> c] params)
       (\<lambda>self'. configure_figure lib self' figNum)"
  using assms by (simp add: orbit_animator_init_def)

text \<open>
  C9. Constructing \<open>orbit_animator\<close> with a false \<open>params['isCartesian']\<close> always fails,
  whatever the libraries do: the polar branch sets no position attribute, so when
  \<open>T\<close>, \<open>N\<close> and the six polar keys are there and \<open>plt.figure\<close> returns, reading
  \<open>self.xPositions\<close> for the axis limits raises an AttributeError.
\<close>

theorem polar_init_always_fails:
  assumes "params ''isCartesian'' = Some c" and "\<not> truthy c"
  shows "(\<exists>e. orbit_animator_init lib params figNum = Inl e)
    \<and> (params ''T'' \<noteq> None \<and> params ''N'' \<noteq> None
       \<and> params ''rhos'' \<noteq> None \<and> params ''thetas'' \<noteq> None \<and> params ''rhoDots'' \<noteq> None
       \<and> params ''thetaDots'' \<noteq> None \<and> params ''rhoForces'' \<noteq> None
       \<and> params ''thetaForces'' \<noteq> None \<and> (\<exists>fig. plt_figure lib figNum = Inr fig)
       \<longrightarrow> orbit_animator_init lib params figNum = Inl (AttributeError ''xPositions''))"
proof (cases "params ''T''")
  case None
  then show ?thesis by (simp add: orbit_animator_init_def)
next
  case T: (Some vT)
  show ?thesis
  proof (cases "params ''N''")
    case None
    with T show ?thesis by (simp add: orbit_animator_init_def)
  next
    case N: (Some vN)
    let ?self = "[''T'' \<mapsto> vT, ''N'' \<mapsto> vN, ''coordsAreCartesian'' \<mapsto> c]"
    have eq: "orbit_animator_init lib params figNum =
       bind_err (init_polar ?self params) (\<lambda>self'. configure_figure lib self' figNum)"
      using T N assms by (rule init_polar_branch)
    have no_x: "?self ''xPositions'' = None" by simp
    have fails: "\<exists>e. orbit_animator_init lib params figNum = Inl e"
    proof (cases "init_polar ?self params")
      case (Inl e)
      then show ?thesis by (simp add: eq)
    next
      case (Inr self')
      then have "self' = ?self" by (rule init_polar_result)
      with Inr show ?thesis
        using configure_figure_needs_xPositions [of ?self lib figNum] no_x by (simp add: eq)
    qed
    have attr: "orbit_animator_init lib params figNum = Inl (AttributeError ''xPositions'')"
      if keys: "params ''rhos'' \<noteq> None" "params ''thetas'' \<noteq> None" "params ''rhoDots'' \<noteq> None"
        "params ''thetaDots'' \<noteq> None" "params ''rhoForces'' \<noteq> None"
        "params ''thetaForces'' \<noteq> None" and fig: "plt_figure lib figNum = Inr fig" for fig
      using init_polar_all_keys [OF keys, of ?self]
        configure_figure_AttributeError [of ?self lib figNum fig] no_x fig
      by (simp add: eq)
    from fails attr show ?thesis by blast
  qed
qed

theorem polar_init_always_fails_witness:
  "\<not> truthy (VBool False)
   \<and> orbit_animator_init quiet_libs
      [''T'' \<mapsto> VNum 10, ''N'' \<mapsto> VNum 10, ''isCartesian'' \<mapsto> VBool False,
       ''rhos'' \<mapsto> VList [1, 1], ''thetas'' \<mapsto> VList [0, 1], ''rhoDots'' \<mapsto> VList [0, 0],
       ''thetaDots'' \<mapsto> VList [1, 1], ''rhoForces'' \<mapsto> VList [0, 0],
       ''thetaForces'' \<mapsto> VList [0, 0]] 0
   = Inl (AttributeError ''xPositions'')"
  using polar_init_always_fails [of
      "[''T'' \<mapsto> VNum 10, ''N'' \<mapsto> VNum 10, ''isCartesian'' \<mapsto> VBool False,
       ''rhos'' \<mapsto> VList [1, 1], ''thetas'' \<mapsto> VList [0, 1], ''rhoDots'' \<mapsto> VList [0, 0],
       ''thetaDots'' \<mapsto> VList [1, 1], ''rhoForces'' \<mapsto> VList [0, 0],
       ''thetaForces'' \<mapsto> VList [0, 0]]" "VBool False"
      quiet_libs 0]
  by (simp add: quiet_libs_def)

subsection \<open>The other routines, on an object whose attributes are set\<close>

lemma py_index_in_range:
  "0 \<le> i \<Longrightarrow> i < int (length ys) \<Longrightarrow> py_index (VList ys) i = Inr (ys ! nat i)"
  by simp

lemma run_eq:
  assumes "self ''fig'' = Some fig" and "self ''N'' = Some vN"
  shows "run lib self fps saveFile fileName =
     bind_err (np_arange lib 1 vN) (\<lambda>frames.
     bind_err (if fps = 0 then Inl ZeroDivisionError else Inr (100 / fps)) (\<lambda>interval.
     bind_err (FuncAnimation lib fig frames interval) (\<lambda>anim.
     bind_err (if saveFile then anim_save lib anim fileName fps else Inr ()) (\<lambda>_.
       plt_show lib))))"
  using assms by (simp add: run_def)

lemma animation_main_eq:
  assumes "self ''xPositions'' = Some (VList xp)" and "self ''yPositions'' = Some (VList yp)"
    and "self ''trajectory'' = Some tr" and "1 \<le> i" and "i < int (length xp)"
    and "i < int (length yp)"
  shows "animation_main lib self i =
     bind_err (set_data lib tr [xp ! nat i, xp ! nat (i - 1)] [yp ! nat i, yp ! nat (i - 1)])
       (\<lambda>_. Inr tr)"
  using assms by (simp add: animation_main_def Let_def)

lemma animation_init_eq:
  assumes "self ''ax'' = Some ax"
  shows "animation_init lib self =
     bind_err (ax_plot lib ax) (\<lambda>lines.
     bind_err (case lines of [line] \<Rightarrow> Inr line | _ \<Rightarrow> Inl ValueError) (\<lambda>line.
     bind_err (set_data lib line [] []) (\<lambda>_. Inr (self(''trajectory'' \<mapsto> line), line))))"
  using assms by (simp add: animation_init_def Let_def)

section \<open>Properties of the NLP of the orbit script\<close>

subsection \<open>The variables after \<open>n\<close> passes of the loop\<close>

lemma concat_replicate_snoc: "concat (replicate n b) @ b = b @ concat (replicate n b)"
  by (induction n) simp_all

lemma nlp_loop_0: "nlp_loop sc step 0 = nlp_start sc step"
  by (simp add: nlp_loop_def)

lemma nlp_loop_Suc: "nlp_loop sc step (Suc n) = nlp_step sc step (nlp_loop sc step n) n"
  by (simp add: nlp_loop_def)

lemma Xk_loop_0: "Xk (nlp_loop sc step 0) = map Num (xs_init sc step ! 0)"
  by (simp add: nlp_loop_0 nlp_start_def)

lemma Xk_loop_Suc: "Xk (nlp_loop sc step (Suc n)) = MX_sym (X_sym (Suc n)) (nx sc)"
  by (simp add: nlp_loop_Suc nlp_step_def Let_def)

lemma Xk_end_loop_Suc:
  "Xk_end (nlp_loop sc step (Suc n)) =
     F_mx sc (Xk (nlp_loop sc step n)) (MX_sym (U_sym n) (nu sc))"
  by (simp add: nlp_loop_Suc nlp_step_def Let_def)

lemma w_loop:
  "w (nlp_loop sc step n) =
     concat (map (\<lambda>k. MX_sym (U_sym k) (nu sc) @ MX_sym (X_sym (Suc k)) (nx sc)) [0..<n])"
  by (induction n) (simp_all add: nlp_loop_0 nlp_start_def nlp_loop_Suc nlp_step_def Let_def)

lemma w0_loop:
  "w0 (nlp_loop sc step n) =
     concat (map (\<lambda>k. us_init sc ! k @ xs_init sc step ! Suc k) [0..<n])"
  by (induction n) (simp_all add: nlp_loop_0 nlp_start_def nlp_loop_Suc nlp_step_def Let_def)

lemma lbw_loop:
  "lbw (nlp_loop sc step n) =
     concat (replicate n [Neg_inf, Neg_inf, Finite 0, Neg_inf, Neg_inf, Neg_inf, Finite (me sc)])"
  by (induction n)
     (simp_all add: nlp_loop_0 nlp_start_def nlp_loop_Suc nlp_step_def Let_def
        concat_replicate_snoc)

lemma ubw_loop:
  "ubw (nlp_loop sc step n) =
     concat (replicate n [Inf, Inf, Inf, Inf, Inf, Inf, Finite (m0 sc)])"
  by (induction n)
     (simp_all add: nlp_loop_0 nlp_start_def nlp_loop_Suc nlp_step_def Let_def
        concat_replicate_snoc)

lemma g_loop:
  "g (nlp_loop sc step n) =
     concat (map (\<lambda>k. Add (Pow (MX_sym (U_sym k) (nu sc) ! 0) 2) (Pow (MX_sym (U_sym k) (nu sc) ! 1) 2)
                     # minus_mx (F_mx sc (Xk (nlp_loop sc step k)) (MX_sym (U_sym k) (nu sc)))
                         (MX_sym (X_sym (Suc k)) (nx sc))) [0..<n])"
  by (induction n) (simp_all add: nlp_loop_0 nlp_start_def nlp_loop_Suc nlp_step_def Let_def)

lemma lbg_loop:
  "lbg (nlp_loop sc step n) = concat (replicate n (0 # np_zeros (nx sc)))"
  by (induction n)
     (simp_all add: nlp_loop_0 nlp_start_def nlp_loop_Suc nlp_step_def Let_def
        concat_replicate_snoc)

lemma ubg_loop:
  "ubg (nlp_loop sc step n) = concat (replicate n (1 # np_zeros (nx sc)))"
  by (induction n)
     (simp_all add: nlp_loop_0 nlp_start_def nlp_loop_Suc nlp_step_def Let_def
        concat_replicate_snoc)


subsection \<open>Lists built block by block\<close>

lemma length_concat_uniform:
  "(\<And>k. k < n \<Longrightarrow> length (blk k) = b) \<Longrightarrow> length (concat (map blk [0..<n])) = n * b"
  by (induction n) simp_all

lemma concat_uniform_nth:
  assumes "\<And>k. k < n \<Longrightarrow> length (blk k) = b" and "k < n" and "j < b"
  shows "concat (map blk [0..<n]) ! (k * b + j) = blk k ! j"
  using assms
proof (induction n)
  case 0
  then show ?case by simp
next
  case (Suc n)
  have len: "length (concat (map blk [0..<n])) = n * b"
    using Suc.prems(1) by (simp add: length_concat_uniform)
  show ?case
  proof (cases "k < n")
    case True
    then have "Suc k \<le> n" by simp
    then have "Suc k * b \<le> n * b" by (rule mult_le_mono1)
    with \<open>j < b\<close> have lt: "k * b + j < n * b" by simp
    have "concat (map blk [0..<n]) ! (k * b + j) = blk k ! j"
      using Suc.IH Suc.prems(1) True \<open>j < b\<close> by simp
    with lt len show ?thesis by (simp add: nth_append)
  next
    case False
    with Suc.prems(2) have "k = n" by simp
    with len show ?thesis by (simp add: nth_append)
  qed
qed

lemma length_concat_replicate: "length (concat (replicate n ys)) = n * length ys"
  by (induction n) simp_all

lemma concat_replicate_as_map: "concat (replicate n ys) = concat (map (\<lambda>k. ys) [0..<n])"
  by (simp add: map_replicate_const)

lemma concat_replicate_nth:
  "k < n \<Longrightarrow> j < length ys \<Longrightarrow> concat (replicate n ys) ! (k * length ys + j) = ys ! j"
  using concat_uniform_nth [of n "\<lambda>k. ys" "length ys" k j]
  by (simp add: concat_replicate_as_map)

lemma map_of_zip_concat:
  assumes "\<And>k. k < n \<Longrightarrow> length (fw k) = length (fv k)"
    and "distinct (concat (map fw [0..<n]))" and "k < n" and "j < length (fw k)"
  shows "map_of (zip (concat (map fw [0..<n])) (concat (map fv [0..<n]))) (fw k ! j)
           = Some (fv k ! j)"
  using assms
proof (induction n)
  case 0
  then show ?case by simp
next
  case (Suc n)
  let ?W = "concat (map fw [0..<n])" and ?V = "concat (map fv [0..<n])"
  have lenWV: "length ?W = length ?V"
    using Suc.prems(1) by (induction n) simp_all
  have dW: "distinct ?W" and dn: "distinct (fw n)" and disj: "set ?W \<inter> set (fw n) = {}"
    using Suc.prems(2) by simp_all
  have split: "map_of (zip (concat (map fw [0..<Suc n])) (concat (map fv [0..<Suc n]))) x =
      (case map_of (zip ?W ?V) x of None \<Rightarrow> map_of (zip (fw n) (fv n)) x | Some y \<Rightarrow> Some y)" for x
    using lenWV by (simp add: map_add_def)
  show ?case
  proof (cases "k < n")
    case True
    have "map_of (zip ?W ?V) (fw k ! j) = Some (fv k ! j)"
      using Suc.IH Suc.prems(1) dW True Suc.prems(4) by simp
    then show ?thesis by (subst split) simp
  next
    case False
    with Suc.prems(3) have k: "k = n" by simp
    have "fw n ! j \<in> set (fw n)" using Suc.prems(4) k by simp
    with disj have "fw n ! j \<notin> set ?W" by blast
    then have none: "map_of (zip ?W ?V) (fw n ! j) = None"
      using lenWV by (simp add: map_of_zip_is_None)
    have "map_of (zip (fw n) (fv n)) (fw n ! j) = Some (fv n ! j)"
      using Suc.prems(1)[of n] dn Suc.prems(4) k by (simp add: map_of_zip_nth)
    with none k show ?thesis by (subst split) simp
  qed
qed

subsection \<open>The initial guess\<close>

lemma length_us_r: "length us_r = N"
  by (simp add: us_r_def set_prefix_def np_ones_def np_zeros_def n_r_stop_def N_def)

lemma length_us_theta: "length us_theta = N"
  by (simp add: us_theta_def set_prefix_def np_ones_def np_zeros_def n_theta_stop_def N_def)

lemma us_r_nth: "k < N \<Longrightarrow> us_r ! k = (if k < n_r_stop then 0.1075 else 0)"
  by (simp add: us_r_def set_prefix_def np_ones_def np_zeros_def n_r_stop_def N_def nth_append)

lemma us_theta_nth: "k < N \<Longrightarrow> us_theta ! k = (if k < n_theta_stop then 0.2 else 0)"
  by (simp add: us_theta_def set_prefix_def np_ones_def np_zeros_def n_theta_stop_def N_def
        nth_append)

lemma us_init_nth:
  "k < N \<Longrightarrow> us_init sc ! k = (np_zeros (nu sc))[0 := us_r ! k, 1 := us_theta ! k]"
  by (simp add: us_init_def set_column_def length_us_r length_us_theta)

lemma length_us_init_row: "k < N \<Longrightarrow> length (us_init sc ! k) = nu sc"
  by (simp add: us_init_nth np_zeros_def)

lemma us_init_entries:
  assumes "k < N" and "2 \<le> nu sc"
  shows "us_init sc ! k ! 0 = (if k < n_r_stop then 0.1075 else 0)"
    and "us_init sc ! k ! 1 = (if k < n_theta_stop then 0.2 else 0)"
  using assms by (simp_all add: us_init_nth np_zeros_def us_r_nth us_theta_nth)

lemma circle_at_guess:
  assumes "k < N" and "2 \<le> nu sc"
  shows "0 \<le> (us_init sc ! k ! 0)^2 + (us_init sc ! k ! 1)^2"
    and "(us_init sc ! k ! 0)^2 + (us_init sc ! k ! 1)^2 \<le> 1"
  unfolding us_init_entries [OF assms] by (simp_all add: power2_eq_square)

lemma xs_fold_inv:
  assumes "n \<le> N"
  shows "length (foldl (\<lambda>rows k. rows[k + 1 := F sc step (rows ! k) (us_init sc ! k)])
            ((replicate (N + 1) (np_zeros (nx sc)))[0 := x0_scaled sc]) [0..<n]) = N + 1
       \<and> foldl (\<lambda>rows k. rows[k + 1 := F sc step (rows ! k) (us_init sc ! k)])
            ((replicate (N + 1) (np_zeros (nx sc)))[0 := x0_scaled sc]) [0..<n] ! 0 = x0_scaled sc
       \<and> (\<forall>j<n. foldl (\<lambda>rows k. rows[k + 1 := F sc step (rows ! k) (us_init sc ! k)])
            ((replicate (N + 1) (np_zeros (nx sc)))[0 := x0_scaled sc]) [0..<n] ! Suc j
            = F sc step (foldl (\<lambda>rows k. rows[k + 1 := F sc step (rows ! k) (us_init sc ! k)])
            ((replicate (N + 1) (np_zeros (nx sc)))[0 := x0_scaled sc]) [0..<n] ! j) (us_init sc ! j))"
  using assms
proof (induction n)
  case 0
  then show ?case by simp
next
  case (Suc n)
  define rows where "rows = foldl (\<lambda>rows k. rows[k + 1 := F sc step (rows ! k) (us_init sc ! k)])
            ((replicate (N + 1) (np_zeros (nx sc)))[0 := x0_scaled sc]) [0..<n]"
  have ih: "length rows = N + 1" "rows ! 0 = x0_scaled sc"
    "\<And>j. j < n \<Longrightarrow> rows ! Suc j = F sc step (rows ! j) (us_init sc ! j)"
    using Suc by (simp_all add: rows_def)
  have n: "Suc n < length rows" using Suc.prems ih(1) by simp
  have step: "foldl (\<lambda>rows k. rows[k + 1 := F sc step (rows ! k) (us_init sc ! k)])
            ((replicate (N + 1) (np_zeros (nx sc)))[0 := x0_scaled sc]) [0..<Suc n]
       = rows[Suc n := F sc step (rows ! n) (us_init sc ! n)]"
    by (simp add: rows_def)
  show ?case
    unfolding step using ih n by (auto simp: nth_list_update less_Suc_eq)
qed

lemma xs_init_0: "xs_init sc step ! 0 = x0_scaled sc"
  using xs_fold_inv [of N sc step] by (simp add: xs_init_def xs_def)

lemma xs_init_Suc:
  "k < N \<Longrightarrow> xs_init sc step ! Suc k = F sc step (xs_init sc step ! k) (us_init sc ! k)"
  using xs_fold_inv [of N sc step] by (simp add: xs_init_def xs_def)

lemma length_xs_init: "length (xs_init sc step) = N + 1"
  using xs_fold_inv [of N sc step] by (simp add: xs_init_def xs_def)

lemma length_F:
  assumes "\<And>x u. length x = d \<Longrightarrow> length (step (f sc) x u h) = d" and "length x = d"
  shows "length (F sc step x u) = d"
proof -
  have "length (((\<lambda>Xk. step (f sc) Xk u h) ^^ n) x) = d" for n
    using assms by (induction n) simp_all
  then show ?thesis by (simp add: F_def foldl_upt_funpow)
qed

lemma length_xs_init_row:
  assumes "\<And>x u. length x = nx sc \<Longrightarrow> length (step (f sc) x u h) = nx sc"
    and "length (x0_scaled sc) = nx sc" and "k \<le> N"
  shows "length (xs_init sc step ! k) = nx sc"
  using assms(3)
proof (induction k)
  case 0
  then show ?case by (simp add: xs_init_0 assms(2))
next
  case (Suc k)
  then have "length (xs_init sc step ! k) = nx sc" by simp
  then have "length (F sc step (xs_init sc step ! k) (us_init sc ! k)) = nx sc"
    using assms(1) by (rule length_F [rotated])
  with Suc.prems show ?case by (simp add: xs_init_Suc)
qed

subsection \<open>The decision vector and its values at the guess\<close>

lemma length_MX_sym [simp]: "length (MX_sym s n) = n"
  by (simp add: MX_sym_def)

lemma MX_sym_nth [simp]: "i < n \<Longrightarrow> MX_sym s n ! i = Sym s i"
  by (simp add: MX_sym_def)

lemma set_MX_sym: "set (MX_sym s n) = {Sym s i |i. i < n}"
  by (auto simp: MX_sym_def)

lemma distinct_MX_sym [simp]: "distinct (MX_sym s n)"
  by (simp add: MX_sym_def distinct_map inj_on_def)

lemma set_w_loop:
  "set (w (nlp_loop sc step n)) =
     {Sym (U_sym k) i |k i. k < n \<and> i < nu sc} \<union> {Sym (X_sym (Suc k)) i |k i. k < n \<and> i < nx sc}"
  by (induction n)
     (auto simp: nlp_loop_0 nlp_start_def nlp_loop_Suc nlp_step_def Let_def set_MX_sym
        less_Suc_eq)

lemma distinct_w_loop: "distinct (w (nlp_loop sc step n))"
proof (induction n)
  case 0
  then show ?case by (simp add: nlp_loop_0 nlp_start_def)
next
  case (Suc n)
  have w: "w (nlp_loop sc step (Suc n)) =
      w (nlp_loop sc step n) @ MX_sym (U_sym n) (nu sc) @ MX_sym (X_sym (Suc n)) (nx sc)"
    by (simp add: nlp_loop_Suc nlp_step_def Let_def)
  show ?case
    unfolding w using Suc by (auto simp: set_w_loop set_MX_sym)
qed

lemma valuation_at_guess:
  assumes shape: "\<And>k. k < n \<Longrightarrow> length (xs_init sc step ! Suc k) = nx sc"
    and "n \<le> N" and "k < n"
  shows "i < nu sc \<Longrightarrow>
           valuation (w (nlp_loop sc step n)) (w0 (nlp_loop sc step n)) (U_sym k) i
             = us_init sc ! k ! i"
    and "i < nx sc \<Longrightarrow>
           valuation (w (nlp_loop sc step n)) (w0 (nlp_loop sc step n)) (X_sym (Suc k)) i
             = xs_init sc step ! Suc k ! i"
proof -
  let ?fw = "\<lambda>k. MX_sym (U_sym k) (nu sc) @ MX_sym (X_sym (Suc k)) (nx sc)"
  let ?fv = "\<lambda>k. us_init sc ! k @ xs_init sc step ! Suc k"
  have len: "length (?fw k) = length (?fv k)" if "k < n" for k
    using that shape assms(2) by (simp add: length_us_init_row)
  have d: "distinct (concat (map ?fw [0..<n]))"
    using distinct_w_loop [of sc step n] by (simp add: w_loop)
  have lu: "length (us_init sc ! k) = nu sc"
    using assms(2,3) by (simp add: length_us_init_row)
  have look: "map_of (zip (w (nlp_loop sc step n)) (w0 (nlp_loop sc step n))) (?fw k ! j)
      = Some (?fv k ! j)" if "j < nu sc + nx sc" for j
    unfolding w_loop w0_loop
    by (rule map_of_zip_concat [of n ?fw ?fv, OF len d assms(3)]) (use that in simp_all)
  show "valuation (w (nlp_loop sc step n)) (w0 (nlp_loop sc step n)) (U_sym k) i
             = us_init sc ! k ! i" if "i < nu sc"
    using look [of i] that lu by (simp add: valuation_def nth_append)
  show "valuation (w (nlp_loop sc step n)) (w0 (nlp_loop sc step n)) (X_sym (Suc k)) i
             = xs_init sc step ! Suc k ! i" if "i < nx sc"
    using look [of "nu sc + i"] that lu by (simp add: valuation_def nth_append)
qed

lemma map_eval_MX_sym:
  assumes "length v = n" and "\<And>i. i < n \<Longrightarrow> env s i = v ! i"
  shows "map (eval Ff Lf env) (MX_sym s n) = v"
  using assms by (auto simp: MX_sym_def list_eq_iff_nth_eq)

lemma map_eval_Num [simp]: "map (eval Ff Lf env) (map Num v) = v"
  by (simp add: map_idI)

subsection \<open>The assembled problem\<close>

lemma ocp_unchanged:
  "w (ocp sc step) = w (nlp_loop sc step N)"
  "w0 (ocp sc step) = w0 (nlp_loop sc step N)"
  "lbw (ocp sc step) = lbw (nlp_loop sc step N)"
  "ubw (ocp sc step) = ubw (nlp_loop sc step N)"
  "J (ocp sc step) = J (nlp_loop sc step N)"
  by (simp_all add: ocp_def nlp_terminal_def Let_def)

lemma ocp_g:
  "g (ocp sc step) = g (nlp_loop sc step N)
     @ [Xk_end (nlp_loop sc step N) ! 0, Xk_end (nlp_loop sc step N) ! 1,
        Xk_end (nlp_loop sc step N) ! 3]"
  by (simp add: ocp_def nlp_terminal_def Let_def)

lemma ocp_lbg:
  "lbg (ocp sc step) = lbg (nlp_loop sc step N) @ [altitude_T, 0, angVel_T sc]"
  by (simp add: ocp_def nlp_terminal_def Let_def)

lemma ocp_ubg:
  "ubg (ocp sc step) = ubg (nlp_loop sc step N) @ [altitude_T, 0, angVel_T sc]"
  by (simp add: ocp_def nlp_terminal_def Let_def)

lemma minus_mx_F_mx:
  "minus_mx (F_mx sc a b) (MX_sym s (nx sc)) = map (\<lambda>i. Sub (F_call a b i) (Sym s i)) [0..<nx sc]"
  by (simp add: minus_mx_def F_mx_def MX_sym_def zip_map_map zip_same_conv_map)

lemma block_index: "k < n \<Longrightarrow> j < b \<Longrightarrow> k * b + j < n * (b::nat)"
proof -
  assume "k < n" and "j < b"
  then have "Suc k * b \<le> n * b" by (intro mult_le_mono1) simp
  with \<open>j < b\<close> show ?thesis by simp
qed

lemma length_g_loop: "length (g (nlp_loop sc step n)) = n * (1 + nx sc)"
  unfolding g_loop by (rule length_concat_uniform) (simp add: minus_mx_F_mx)

lemma length_lbg_loop: "length (lbg (nlp_loop sc step n)) = n * (1 + nx sc)"
  by (simp add: lbg_loop length_concat_replicate np_zeros_def)

lemma length_ubg_loop: "length (ubg (nlp_loop sc step n)) = n * (1 + nx sc)"
  by (simp add: ubg_loop length_concat_replicate np_zeros_def)

lemma ocp_g_continuity:
  assumes "k < N" and "i < nx sc"
  shows "g (ocp sc step) ! (k * (1 + nx sc) + 1 + i) =
     Sub (F_call (Xk (nlp_loop sc step k)) (MX_sym (U_sym k) (nu sc)) i) (Sym (X_sym (Suc k)) i)"
proof -
  let ?blk = "\<lambda>k. Add (Pow (MX_sym (U_sym k) (nu sc) ! 0) 2) (Pow (MX_sym (U_sym k) (nu sc) ! 1) 2)
                     # minus_mx (F_mx sc (Xk (nlp_loop sc step k)) (MX_sym (U_sym k) (nu sc)))
                         (MX_sym (X_sym (Suc k)) (nx sc))"
  have lt: "k * (1 + nx sc) + (1 + i) < N * (1 + nx sc)"
    using assms by (intro block_index) simp_all
  have "g (ocp sc step) ! (k * (1 + nx sc) + (1 + i)) =
      g (nlp_loop sc step N) ! (k * (1 + nx sc) + (1 + i))"
    using lt by (simp add: ocp_g nth_append length_g_loop)
  also have "\<dots> = ?blk k ! (1 + i)"
    unfolding g_loop using assms
    by (intro concat_uniform_nth) (simp_all add: minus_mx_F_mx)
  also have "\<dots> = Sub (F_call (Xk (nlp_loop sc step k)) (MX_sym (U_sym k) (nu sc)) i)
      (Sym (X_sym (Suc k)) i)"
    using assms by (simp add: minus_mx_F_mx)
  finally show ?thesis by (simp add: add.assoc)
qed

lemma ocp_g_circle:
  assumes "k < N"
  shows "g (ocp sc step) ! (k * (1 + nx sc)) =
     Add (Pow (MX_sym (U_sym k) (nu sc) ! 0) 2) (Pow (MX_sym (U_sym k) (nu sc) ! 1) 2)"
proof -
  let ?blk = "\<lambda>k. Add (Pow (MX_sym (U_sym k) (nu sc) ! 0) 2) (Pow (MX_sym (U_sym k) (nu sc) ! 1) 2)
                     # minus_mx (F_mx sc (Xk (nlp_loop sc step k)) (MX_sym (U_sym k) (nu sc)))
                         (MX_sym (X_sym (Suc k)) (nx sc))"
  have lt: "k * (1 + nx sc) + 0 < N * (1 + nx sc)"
    using assms by (intro block_index) simp_all
  have "g (ocp sc step) ! (k * (1 + nx sc) + 0) = g (nlp_loop sc step N) ! (k * (1 + nx sc) + 0)"
    using lt by (simp add: ocp_g nth_append length_g_loop)
  also have "\<dots> = ?blk k ! 0"
    unfolding g_loop using assms
    by (intro concat_uniform_nth) (simp_all add: minus_mx_F_mx)
  finally show ?thesis by simp
qed

lemma ocp_bounds_g_nth:
  assumes "k < N" and "j < 1 + nx sc"
  shows "lbg (ocp sc step) ! (k * (1 + nx sc) + j) = (0 # np_zeros (nx sc)) ! j"
    and "ubg (ocp sc step) ! (k * (1 + nx sc) + j) = (1 # np_zeros (nx sc)) ! j"
proof -
  have lt: "k * (1 + nx sc) + j < N * (1 + nx sc)"
    using assms by (intro block_index) simp_all
  have len: "length (0 # np_zeros (nx sc)) = 1 + nx sc" "length (1 # np_zeros (nx sc)) = 1 + nx sc"
    by (simp_all add: np_zeros_def)
  have "lbg (ocp sc step) ! (k * (1 + nx sc) + j) = lbg (nlp_loop sc step N) ! (k * (1 + nx sc) + j)"
    using lt by (simp add: ocp_lbg nth_append length_lbg_loop)
  also have "\<dots> = (0 # np_zeros (nx sc)) ! j"
    unfolding lbg_loop using concat_replicate_nth [of k N j "0 # np_zeros (nx sc)"] assms len
    by simp
  finally show "lbg (ocp sc step) ! (k * (1 + nx sc) + j) = (0 # np_zeros (nx sc)) ! j" .
  have "ubg (ocp sc step) ! (k * (1 + nx sc) + j) = ubg (nlp_loop sc step N) ! (k * (1 + nx sc) + j)"
    using lt by (simp add: ocp_ubg nth_append length_ubg_loop)
  also have "\<dots> = (1 # np_zeros (nx sc)) ! j"
    unfolding ubg_loop using concat_replicate_nth [of k N j "1 # np_zeros (nx sc)"] assms len
    by simp
  finally show "ubg (ocp sc step) ! (k * (1 + nx sc) + j) = (1 # np_zeros (nx sc)) ! j" .
qed

lemma Xk_loop:
  "Xk (nlp_loop sc step k) =
     (if k = 0 then map Num (x0_scaled sc) else MX_sym (X_sym k) (nx sc))"
  by (cases k) (simp_all add: Xk_loop_0 Xk_loop_Suc xs_init_0)

subsection \<open>The concrete spacecraft\<close>

lemma euler_rest:
  assumes "length x = 5"
  shows "euler_step (f resting_spacecraft) x u dt = x"
proof -
  from assms obtain a b c d e where "x = [a, b, c, d, e]"
    by (auto simp: eval_nat_numeral length_Suc_conv)
  then show ?thesis by (simp add: euler_step_def f_def resting_spacecraft_def)
qed

lemma resting_shape:
  "nx resting_spacecraft = 5" "nu resting_spacecraft = 2"
  "length (x0_scaled resting_spacecraft) = 5"
  "length x = 5 \<Longrightarrow> length (euler_step (f resting_spacecraft) x u dt) = 5"
  by (simp_all add: euler_rest) (simp_all add: resting_spacecraft_def)

subsection \<open>The transcription\<close>

lemma take_drop_eq_map:
  assumes "p + n \<le> length ys" and "\<And>i. i < n \<Longrightarrow> ys ! (p + i) = fn i"
  shows "take n (drop p ys) = map fn [0..<n]"
  using assms by (auto simp: list_eq_iff_nth_eq)

lemma length_ocp_g: "length (g (ocp sc step)) = N * (1 + nx sc) + 3"
  by (simp add: ocp_g length_g_loop)

lemma length_ocp_lbg: "length (lbg (ocp sc step)) = N * (1 + nx sc) + 3"
  by (simp add: ocp_lbg length_lbg_loop)

lemma length_ocp_ubg: "length (ubg (ocp sc step)) = N * (1 + nx sc) + 3"
  by (simp add: ocp_ubg length_ubg_loop)

lemma block_end: "k < n \<Longrightarrow> k * (1 + b) + 1 + b \<le> n * (1 + (b::nat))"
proof -
  assume "k < n"
  then have "Suc k * (1 + b) \<le> n * (1 + b)" by (intro mult_le_mono1) simp
  then show ?thesis by simp
qed

text \<open>
  C2. Multiple shooting: for every interval \<open>k\<close> of \<open>0..N-1\<close> the constraint vector holds,
  after the circle constraint of the interval, the \<open>nx\<close> entries of \<open>F(X_k, U_k) - X_{k+1}\<close>
  (the end state of segment \<open>k\<close> minus the state variable of the next segment), with lower
  and upper bounds all zero. \<open>Xk (nlp_loop sc step k)\<close> is the value of the variable \<open>Xk\<close>
  when pass \<open>k\<close> starts: the numbers \<open>xs_init[0,:]\<close> for \<open>k = 0\<close>, the symbol \<open>X_k\<close> after.
\<close>

theorem shooting_intervals_joined_by_equalities:
  assumes "k < N"
  shows "take (nx sc) (drop (k * (1 + nx sc) + 1) (g (ocp sc step)))
           = map (\<lambda>i. Sub (F_call (Xk (nlp_loop sc step k)) (MX_sym (U_sym k) (nu sc)) i)
                          (Sym (X_sym (k + 1)) i)) [0..<nx sc]
       \<and> take (nx sc) (drop (k * (1 + nx sc) + 1) (lbg (ocp sc step))) = replicate (nx sc) 0
       \<and> take (nx sc) (drop (k * (1 + nx sc) + 1) (ubg (ocp sc step))) = replicate (nx sc) 0
       \<and> Xk (nlp_loop sc step k)
           = (if k = 0 then map Num (x0_scaled sc) else MX_sym (X_sym k) (nx sc))"
proof -
  have fits: "k * (1 + nx sc) + 1 + nx sc \<le> N * (1 + nx sc) + 3"
    using block_end [OF assms, of "nx sc"] by simp
  have zeros: "replicate (nx sc) (0::real) = map (\<lambda>i. 0) [0..<nx sc]"
    by (simp add: map_replicate_const)
  have "take (nx sc) (drop (k * (1 + nx sc) + 1) (g (ocp sc step)))
           = map (\<lambda>i. Sub (F_call (Xk (nlp_loop sc step k)) (MX_sym (U_sym k) (nu sc)) i)
                          (Sym (X_sym (k + 1)) i)) [0..<nx sc]"
    using fits ocp_g_continuity [OF assms, of _ sc step]
    by (intro take_drop_eq_map) (simp_all add: length_ocp_g)
  moreover have "take (nx sc) (drop (k * (1 + nx sc) + 1) (lbg (ocp sc step))) = replicate (nx sc) 0"
    unfolding zeros using fits ocp_bounds_g_nth(1) [OF assms, of "1 + _" sc step]
    by (intro take_drop_eq_map) (simp_all add: length_ocp_lbg np_zeros_def add.assoc)
  moreover have "take (nx sc) (drop (k * (1 + nx sc) + 1) (ubg (ocp sc step))) = replicate (nx sc) 0"
    unfolding zeros using fits ocp_bounds_g_nth(2) [OF assms, of "1 + _" sc step]
    by (intro take_drop_eq_map) (simp_all add: length_ocp_ubg np_zeros_def add.assoc)
  ultimately show ?thesis by (simp add: Xk_loop)
qed

theorem shooting_intervals_joined_witness:
  "(3::nat) < N
   \<and> take 5 (drop 19 (g (ocp resting_spacecraft euler_step)))
       = map (\<lambda>i. Sub (F_call (MX_sym (X_sym 3) 5) (MX_sym (U_sym 3) 2) i) (Sym (X_sym 4) i)) [0..<5]
   \<and> take 5 (drop 19 (lbg (ocp resting_spacecraft euler_step))) = replicate 5 0
   \<and> take 5 (drop 19 (ubg (ocp resting_spacecraft euler_step))) = replicate 5 0"
  using shooting_intervals_joined_by_equalities [of 3 resting_spacecraft euler_step]
  by (simp add: N_def resting_spacecraft_def)

lemma MX_sym_2: "MX_sym s 2 = [Sym s 0, Sym s 1]"
  by (simp add: MX_sym_def eval_nat_numeral)

lemma g_block_entries:
  assumes "2 \<le> nu sc"
  shows "Add (Pow (MX_sym (U_sym k) (nu sc) ! 0) 2) (Pow (MX_sym (U_sym k) (nu sc) ! 1) 2)
           # minus_mx (F_mx sc a (MX_sym (U_sym k) (nu sc))) (MX_sym (X_sym (Suc k)) (nx sc))
         = Add (Pow (Sym (U_sym k) 0) 2) (Pow (Sym (U_sym k) 1) 2)
           # map (\<lambda>i. Sub (F_call a (MX_sym (U_sym k) (nu sc)) i) (Sym (X_sym (k + 1)) i)) [0..<nx sc]"
  using assms by (simp add: minus_mx_F_mx)

lemma Xk_end_entries:
  assumes "i < nx sc"
  shows "Xk_end (nlp_loop sc step N) ! i =
     F_call (Xk (nlp_loop sc step (N - 1))) (MX_sym (U_sym (N - 1)) (nu sc)) i"
proof -
  have "N = Suc (N - 1)" by (simp add: N_def)
  then have "Xk_end (nlp_loop sc step N) =
      F_mx sc (Xk (nlp_loop sc step (N - 1))) (MX_sym (U_sym (N - 1)) (nu sc))"
    using Xk_end_loop_Suc [of sc step "N - 1"] by simp
  with assms show ?thesis by (simp add: F_mx_def)
qed

text \<open>
  C6. The constraint vector and its bounds agree in shape and content: \<open>g\<close>, \<open>lbg\<close> and
  \<open>ubg\<close> have \<open>N*(1 + nx) + 3\<close> entries each; per interval the circle constraint
  \<open>Uk[0]^2 + Uk[1]^2\<close> within \<open>[0, 1]\<close> and \<open>nx\<close> continuity equalities, then three terminal
  equalities that fix entries 0, 1 and 3 of the last \<open>Xk_end\<close> (altitude, radial velocity,
  angular velocity) to \<open>altitude_T\<close>, \<open>0\<close> and \<open>angVel_T\<close>; and the solver is called with
  \<open>w0\<close>, \<open>lbw\<close>, \<open>ubw\<close>, \<open>lbg\<close>, \<open>ubg\<close>.
\<close>

theorem constraints_bounds_and_solver_call:
  assumes "2 \<le> nu sc" and "4 \<le> nx sc"
  shows "g (ocp sc step) =
           concat (map (\<lambda>k. Add (Pow (Sym (U_sym k) 0) 2) (Pow (Sym (U_sym k) 1) 2)
                            # map (\<lambda>i. Sub (F_call (Xk (nlp_loop sc step k))
                                                (MX_sym (U_sym k) (nu sc)) i)
                                            (Sym (X_sym (k + 1)) i)) [0..<nx sc]) [0..<N])
           @ [F_call (Xk (nlp_loop sc step (N - 1))) (MX_sym (U_sym (N - 1)) (nu sc)) 0,
              F_call (Xk (nlp_loop sc step (N - 1))) (MX_sym (U_sym (N - 1)) (nu sc)) 1,
              F_call (Xk (nlp_loop sc step (N - 1))) (MX_sym (U_sym (N - 1)) (nu sc)) 3]
       \<and> lbg (ocp sc step) =
           concat (replicate N (0 # replicate (nx sc) 0)) @ [altitude_T, 0, angVel_T sc]
       \<and> ubg (ocp sc step) =
           concat (replicate N (1 # replicate (nx sc) 0)) @ [altitude_T, 0, angVel_T sc]
       \<and> length (g (ocp sc step)) = N * (1 + nx sc) + 3
       \<and> length (lbg (ocp sc step)) = N * (1 + nx sc) + 3
       \<and> length (ubg (ocp sc step)) = N * (1 + nx sc) + 3
       \<and> nlp_g (nlp sc step) = g (ocp sc step)
       \<and> solver_call sc step =
           \<lparr> arg_x0 = w0 (ocp sc step), arg_lbx = lbw (ocp sc step), arg_ubx = ubw (ocp sc step),
             arg_lbg = lbg (ocp sc step), arg_ubg = ubg (ocp sc step) \<rparr>
       \<and> (\<forall>nlpsol solver. nlpsol (nlp sc step) = Inr solver \<longrightarrow>
             main_orbit_2d_polar sc step nlpsol = solver (solver_call sc step))"
proof -
  have gl: "g (nlp_loop sc step N) =
           concat (map (\<lambda>k. Add (Pow (Sym (U_sym k) 0) 2) (Pow (Sym (U_sym k) 1) 2)
                            # map (\<lambda>i. Sub (F_call (Xk (nlp_loop sc step k))
                                                (MX_sym (U_sym k) (nu sc)) i)
                                            (Sym (X_sym (k + 1)) i)) [0..<nx sc]) [0..<N])"
    unfolding g_loop g_block_entries [OF assms(1)] ..
  have e: "Xk_end (nlp_loop sc step N) ! 0 =
        F_call (Xk (nlp_loop sc step (N - 1))) (MX_sym (U_sym (N - 1)) (nu sc)) 0"
      "Xk_end (nlp_loop sc step N) ! 1 =
        F_call (Xk (nlp_loop sc step (N - 1))) (MX_sym (U_sym (N - 1)) (nu sc)) 1"
      "Xk_end (nlp_loop sc step N) ! 3 =
        F_call (Xk (nlp_loop sc step (N - 1))) (MX_sym (U_sym (N - 1)) (nu sc)) 3"
    using assms(2) by (simp_all add: Xk_end_entries)
  have 1: "g (ocp sc step) =
           concat (map (\<lambda>k. Add (Pow (Sym (U_sym k) 0) 2) (Pow (Sym (U_sym k) 1) 2)
                            # map (\<lambda>i. Sub (F_call (Xk (nlp_loop sc step k))
                                                (MX_sym (U_sym k) (nu sc)) i)
                                            (Sym (X_sym (k + 1)) i)) [0..<nx sc]) [0..<N])
           @ [F_call (Xk (nlp_loop sc step (N - 1))) (MX_sym (U_sym (N - 1)) (nu sc)) 0,
              F_call (Xk (nlp_loop sc step (N - 1))) (MX_sym (U_sym (N - 1)) (nu sc)) 1,
              F_call (Xk (nlp_loop sc step (N - 1))) (MX_sym (U_sym (N - 1)) (nu sc)) 3]"
    unfolding ocp_g gl e ..
  have 2: "lbg (ocp sc step) =
           concat (replicate N (0 # replicate (nx sc) 0)) @ [altitude_T, 0, angVel_T sc]"
    by (simp add: ocp_lbg lbg_loop np_zeros_def)
  have 3: "ubg (ocp sc step) =
           concat (replicate N (1 # replicate (nx sc) 0)) @ [altitude_T, 0, angVel_T sc]"
    by (simp add: ocp_ubg ubg_loop np_zeros_def)
  have 4: "nlp_g (nlp sc step) = g (ocp sc step)"
    by (simp add: nlp_def Let_def)
  have 5: "solver_call sc step =
           \<lparr> arg_x0 = w0 (ocp sc step), arg_lbx = lbw (ocp sc step), arg_ubx = ubw (ocp sc step),
             arg_lbg = lbg (ocp sc step), arg_ubg = ubg (ocp sc step) \<rparr>"
    by (simp add: solver_call_def Let_def)
  have 6: "\<forall>nlpsol solver. nlpsol (nlp sc step) = Inr solver \<longrightarrow>
             main_orbit_2d_polar sc step nlpsol = solver (solver_call sc step)"
    by (simp add: main_orbit_2d_polar_def)
  from 1 2 3 4 5 6 length_ocp_g length_ocp_lbg length_ocp_ubg show ?thesis by blast
qed

theorem constraints_bounds_and_solver_call_witness:
  "2 \<le> nu resting_spacecraft \<and> 4 \<le> nx resting_spacecraft
   \<and> length (g (ocp resting_spacecraft euler_step)) = 603
   \<and> length (lbg (ocp resting_spacecraft euler_step)) = 603
   \<and> length (ubg (ocp resting_spacecraft euler_step)) = 603
   \<and> main_orbit_2d_polar resting_spacecraft euler_step (\<lambda>p. Inr (\<lambda>a. Inr (arg_x0 a)))
       = Inr (w0 (ocp resting_spacecraft euler_step))"
proof -
  have a: "2 \<le> nu resting_spacecraft" and b: "4 \<le> nx resting_spacecraft"
    by (simp_all add: resting_shape)
  note t = constraints_bounds_and_solver_call [OF a b, of euler_step]
  from t have "length (g (ocp resting_spacecraft euler_step)) = N * (1 + nx resting_spacecraft) + 3"
    "length (lbg (ocp resting_spacecraft euler_step)) = N * (1 + nx resting_spacecraft) + 3"
    "length (ubg (ocp resting_spacecraft euler_step)) = N * (1 + nx resting_spacecraft) + 3"
    by blast+
  then have len: "length (g (ocp resting_spacecraft euler_step)) = 603"
    "length (lbg (ocp resting_spacecraft euler_step)) = 603"
    "length (ubg (ocp resting_spacecraft euler_step)) = 603"
    by (simp_all add: resting_shape N_def)
  from t have call: "solver_call resting_spacecraft euler_step =
           \<lparr> arg_x0 = w0 (ocp resting_spacecraft euler_step),
             arg_lbx = lbw (ocp resting_spacecraft euler_step),
             arg_ubx = ubw (ocp resting_spacecraft euler_step),
             arg_lbg = lbg (ocp resting_spacecraft euler_step),
             arg_ubg = ubg (ocp resting_spacecraft euler_step) \<rparr>"
    and run: "\<And>(nlpsol :: nlp_dict \<Rightarrow> error + (solver_args \<Rightarrow> error + real list)) solver.
      nlpsol (nlp resting_spacecraft euler_step) = Inr solver \<Longrightarrow>
        main_orbit_2d_polar resting_spacecraft euler_step nlpsol
          = solver (solver_call resting_spacecraft euler_step)"
    by blast+
  have "main_orbit_2d_polar resting_spacecraft euler_step (\<lambda>p. Inr (\<lambda>a. Inr (arg_x0 a)))
       = Inr (w0 (ocp resting_spacecraft euler_step))"
    by (subst run [of _ "\<lambda>a. Inr (arg_x0 a)"]) (simp_all add: call)
  with a b len show ?thesis by blast
qed

lemma MX_sym_5: "MX_sym s 5 = [Sym s 0, Sym s 1, Sym s 2, Sym s 3, Sym s 4]"
  by (simp add: MX_sym_def eval_nat_numeral)

lemma zip_concat_map:
  assumes "\<And>k. k \<in> set ks \<Longrightarrow> length (fa k) = length (fb k)"
  shows "zip (concat (map fa ks)) (concat (map fb ks)) = concat (map (\<lambda>k. zip (fa k) (fb k)) ks)"
  using assms by (induction ks) simp_all

lemma length_w0_loop:
  assumes "\<And>k. k < n \<Longrightarrow> length (xs_init sc step ! Suc k) = nx sc" and "n \<le> N"
  shows "length (w0 (nlp_loop sc step n)) = n * (nu sc + nx sc)"
  unfolding w0_loop using assms by (intro length_concat_uniform) (simp add: length_us_init_row)

lemma length_w_loop: "length (w (nlp_loop sc step n)) = n * (nu sc + nx sc)"
  unfolding w_loop by (intro length_concat_uniform) simp

lemma zip_w_bounds:
  assumes "nx sc = 5" and "nu sc = 2"
  shows "zip (w (ocp sc step)) (zip (lbw (ocp sc step)) (ubw (ocp sc step))) =
           concat (map (\<lambda>k. [(Sym (U_sym k) 0, Neg_inf, Inf),
                             (Sym (U_sym k) 1, Neg_inf, Inf),
                             (Sym (X_sym (k + 1)) 0, Finite 0, Inf),
                             (Sym (X_sym (k + 1)) 1, Neg_inf, Inf),
                             (Sym (X_sym (k + 1)) 2, Neg_inf, Inf),
                             (Sym (X_sym (k + 1)) 3, Neg_inf, Inf),
                             (Sym (X_sym (k + 1)) 4, Finite (me sc), Finite (m0 sc))]) [0..<N])"
proof -
  have wl: "w (ocp sc step) =
           concat (map (\<lambda>k. [Sym (U_sym k) 0, Sym (U_sym k) 1,
                             Sym (X_sym (k + 1)) 0, Sym (X_sym (k + 1)) 1, Sym (X_sym (k + 1)) 2,
                             Sym (X_sym (k + 1)) 3, Sym (X_sym (k + 1)) 4]) [0..<N])"
    by (simp add: ocp_unchanged w_loop assms MX_sym_2 MX_sym_5)
  have lb: "lbw (ocp sc step) =
      concat (map (\<lambda>k. [Neg_inf, Neg_inf, Finite 0, Neg_inf, Neg_inf, Neg_inf, Finite (me sc)])
        [0..<N])"
    by (simp add: ocp_unchanged lbw_loop map_replicate_const)
  have ub: "ubw (ocp sc step) =
      concat (map (\<lambda>k. [Inf, Inf, Inf, Inf, Inf, Inf, Finite (m0 sc)]) [0..<N])"
    by (simp add: ocp_unchanged ubw_loop map_replicate_const)
  show ?thesis
    unfolding wl lb ub by (simp add: zip_concat_map)
qed

text \<open>
  C5. The decision vector \<open>w\<close> stacks, interval by interval, the two entries of the control
  \<open>U_k\<close> and then the five entries of the state \<open>X_{k+1}\<close>; \<open>w\<close>, \<open>w0\<close>, \<open>lbw\<close> and \<open>ubw\<close> have
  \<open>N*nx + N*nu = 700\<close> entries each; and entry by entry the bounds of a control are
  \<open>-inf\<close> and \<open>inf\<close>, those of a state \<open>0 \<le> altitude\<close> and \<open>me \<le> mass \<le> m0\<close>. The sizes
  \<open>nx = 5\<close>, \<open>nu = 2\<close> and the shapes of the initial state and of one integrator step are
  those of the model class, taken as hypotheses.
\<close>

theorem decision_vector_layout_and_bounds:
  assumes "nx sc = 5" and "nu sc = 2" and "length (x0_scaled sc) = 5"
    and "\<And>x u. length x = 5 \<Longrightarrow> length (step (f sc) x u h) = 5"
  shows "w (ocp sc step) =
           concat (map (\<lambda>k. [Sym (U_sym k) 0, Sym (U_sym k) 1,
                             Sym (X_sym (k + 1)) 0, Sym (X_sym (k + 1)) 1, Sym (X_sym (k + 1)) 2,
                             Sym (X_sym (k + 1)) 3, Sym (X_sym (k + 1)) 4]) [0..<N])
       \<and> length (w (ocp sc step)) = 700 \<and> length (w0 (ocp sc step)) = 700
       \<and> length (lbw (ocp sc step)) = 700 \<and> length (ubw (ocp sc step)) = 700
       \<and> N * nx sc + N * nu sc = 700
       \<and> zip (w (ocp sc step)) (zip (lbw (ocp sc step)) (ubw (ocp sc step))) =
           concat (map (\<lambda>k. [(Sym (U_sym k) 0, Neg_inf, Inf),
                             (Sym (U_sym k) 1, Neg_inf, Inf),
                             (Sym (X_sym (k + 1)) 0, Finite 0, Inf),
                             (Sym (X_sym (k + 1)) 1, Neg_inf, Inf),
                             (Sym (X_sym (k + 1)) 2, Neg_inf, Inf),
                             (Sym (X_sym (k + 1)) 3, Neg_inf, Inf),
                             (Sym (X_sym (k + 1)) 4, Finite (me sc), Finite (m0 sc))]) [0..<N])"
proof -
  have wl: "w (ocp sc step) =
           concat (map (\<lambda>k. [Sym (U_sym k) 0, Sym (U_sym k) 1,
                             Sym (X_sym (k + 1)) 0, Sym (X_sym (k + 1)) 1, Sym (X_sym (k + 1)) 2,
                             Sym (X_sym (k + 1)) 3, Sym (X_sym (k + 1)) 4]) [0..<N])"
    by (simp add: ocp_unchanged w_loop assms(1,2) MX_sym_2 MX_sym_5)
  have rows: "length (xs_init sc step ! Suc k) = nx sc" if "k < N" for k
    using that assms(1,3,4) by (intro length_xs_init_row) simp_all
  have l0: "length (w0 (ocp sc step)) = 700"
    using length_w0_loop [of N sc step] rows by (simp add: ocp_unchanged assms(1,2) N_def)
  have l1: "length (w (ocp sc step)) = 700"
    by (simp add: ocp_unchanged length_w_loop assms(1,2) N_def)
  have l2: "length (lbw (ocp sc step)) = 700" "length (ubw (ocp sc step)) = 700"
    by (simp_all add: ocp_unchanged lbw_loop ubw_loop length_concat_replicate N_def)
  have n: "N * nx sc + N * nu sc = 700"
    by (simp add: assms(1,2) N_def)
  have z: "zip (w (ocp sc step)) (zip (lbw (ocp sc step)) (ubw (ocp sc step))) =
           concat (map (\<lambda>k. [(Sym (U_sym k) 0, Neg_inf, Inf),
                             (Sym (U_sym k) 1, Neg_inf, Inf),
                             (Sym (X_sym (k + 1)) 0, Finite 0, Inf),
                             (Sym (X_sym (k + 1)) 1, Neg_inf, Inf),
                             (Sym (X_sym (k + 1)) 2, Neg_inf, Inf),
                             (Sym (X_sym (k + 1)) 3, Neg_inf, Inf),
                             (Sym (X_sym (k + 1)) 4, Finite (me sc), Finite (m0 sc))]) [0..<N])"
    using assms(1,2) by (rule zip_w_bounds)
  from wl l0 l1 l2 n z show ?thesis by blast
qed

theorem decision_vector_layout_witness:
  "nx resting_spacecraft = 5 \<and> nu resting_spacecraft = 2
   \<and> length (x0_scaled resting_spacecraft) = 5
   \<and> length (w (ocp resting_spacecraft euler_step)) = 700
   \<and> length (w0 (ocp resting_spacecraft euler_step)) = 700
   \<and> length (lbw (ocp resting_spacecraft euler_step)) = 700
   \<and> length (ubw (ocp resting_spacecraft euler_step)) = 700"
  using decision_vector_layout_and_bounds
          [of resting_spacecraft euler_step, OF resting_shape(1-3) resting_shape(4)]
        resting_shape(1-3)
  by blast

lemma set_w_ocp:
  "set (w (ocp sc step)) =
     {Sym (U_sym k) i |k i. k < N \<and> i < nu sc}
       \<union> {Sym (X_sym k) i |k i. 1 \<le> k \<and> k \<le> N \<and> i < nx sc}"
proof -
  have "{Sym (X_sym (Suc k)) i |k i. k < N \<and> i < nx sc}
      = {Sym (X_sym k) i |k i. 1 \<le> k \<and> k \<le> N \<and> i < nx sc}"
  proof (intro equalityI subsetI)
    fix t assume "t \<in> {Sym (X_sym (Suc k)) i |k i. k < N \<and> i < nx sc}"
    then obtain k i where "t = Sym (X_sym (Suc k)) i" "k < N" "i < nx sc" by blast
    then have "t = Sym (X_sym (Suc k)) i \<and> 1 \<le> Suc k \<and> Suc k \<le> N \<and> i < nx sc" by simp
    then show "t \<in> {Sym (X_sym k) i |k i. 1 \<le> k \<and> k \<le> N \<and> i < nx sc}" by blast
  next
    fix t assume "t \<in> {Sym (X_sym k) i |k i. 1 \<le> k \<and> k \<le> N \<and> i < nx sc}"
    then obtain k i where t: "t = Sym (X_sym k) i" "1 \<le> k" "k \<le> N" "i < nx sc" by blast
    then obtain j where "k = Suc j" by (cases k) simp_all
    with t have "t = Sym (X_sym (Suc j)) i \<and> j < N \<and> i < nx sc" by simp
    then show "t \<in> {Sym (X_sym (Suc k)) i |k i. k < N \<and> i < nx sc}" by blast
  qed
  then show ?thesis by (simp add: ocp_unchanged set_w_loop)
qed

text \<open>
  C7. The state at shooting node 0 is not a decision variable: \<open>Xk\<close> starts as the column
  of numbers \<open>xs_init[0,:]\<close>, the scaled initial state; the symbols of \<open>w\<close> are the controls
  \<open>U_0 .. U_{N-1}\<close> and the states \<open>X_1 .. X_N\<close>, so no entry of \<open>X_0\<close> is in \<open>w\<close>; and every
  entry of \<open>w\<close> with a finite bound is an entry of a state \<open>X_k\<close> with \<open>1 \<le> k \<le> N\<close>.
\<close>

theorem initial_state_is_not_a_decision_variable:
  "xs_init sc step ! 0 = x0_scaled sc
   \<and> Xk (nlp_loop sc step 0) = map Num (xs_init sc step ! 0)
   \<and> set (w (ocp sc step)) =
       {Sym (U_sym k) i |k i. k < N \<and> i < nu sc}
         \<union> {Sym (X_sym k) i |k i. 1 \<le> k \<and> k \<le> N \<and> i < nx sc}
   \<and> (\<forall>i. Sym (X_sym 0) i \<notin> set (w (ocp sc step)))
   \<and> (nx sc = 5 \<and> nu sc = 2 \<longrightarrow>
        (\<forall>(s, lb, ub) \<in> set (zip (w (ocp sc step)) (zip (lbw (ocp sc step)) (ubw (ocp sc step)))).
           (lb \<noteq> Neg_inf \<or> ub \<noteq> Inf) \<longrightarrow>
           (\<exists>k i. 1 \<le> k \<and> k \<le> N \<and> i < 5 \<and> s = Sym (X_sym k) i)))"
proof -
  have no0: "\<forall>i. Sym (X_sym 0) i \<notin> set (w (ocp sc step))"
    by (auto simp: set_w_ocp)
  have bounded: "\<forall>(s, lb, ub) \<in> set (zip (w (ocp sc step)) (zip (lbw (ocp sc step)) (ubw (ocp sc step)))).
           (lb \<noteq> Neg_inf \<or> ub \<noteq> Inf) \<longrightarrow>
           (\<exists>k i. 1 \<le> k \<and> k \<le> N \<and> i < 5 \<and> s = Sym (X_sym k) i)"
    if "nx sc = 5" and "nu sc = 2"
    unfolding zip_w_bounds [OF that]
  proof (rule ballI)
    fix t
    assume "t \<in> set (concat (map (\<lambda>k. [(Sym (U_sym k) 0, Neg_inf, Inf),
                             (Sym (U_sym k) 1, Neg_inf, Inf),
                             (Sym (X_sym (k + 1)) 0, Finite 0, Inf),
                             (Sym (X_sym (k + 1)) 1, Neg_inf, Inf),
                             (Sym (X_sym (k + 1)) 2, Neg_inf, Inf),
                             (Sym (X_sym (k + 1)) 3, Neg_inf, Inf),
                             (Sym (X_sym (k + 1)) 4, Finite (me sc), Finite (m0 sc))]) [0..<N]))"
    then obtain k where k: "k < N"
      and t: "t \<in> {(Sym (U_sym k) 0, Neg_inf, Inf),
                             (Sym (U_sym k) 1, Neg_inf, Inf),
                             (Sym (X_sym (k + 1)) 0, Finite 0, Inf),
                             (Sym (X_sym (k + 1)) 1, Neg_inf, Inf),
                             (Sym (X_sym (k + 1)) 2, Neg_inf, Inf),
                             (Sym (X_sym (k + 1)) 3, Neg_inf, Inf),
                             (Sym (X_sym (k + 1)) 4, Finite (me sc), Finite (m0 sc))}"
      by auto
    from k have "1 \<le> Suc k" "Suc k \<le> N" by simp_all
    with t show "case t of (s, lb, ub) \<Rightarrow>
           (lb \<noteq> Neg_inf \<or> ub \<noteq> Inf) \<longrightarrow>
           (\<exists>k i. 1 \<le> k \<and> k \<le> N \<and> i < 5 \<and> s = Sym (X_sym k) i)"
      by auto
  qed
  from xs_init_0 Xk_loop_0 set_w_ocp no0 bounded show ?thesis by blast
qed

theorem initial_state_is_not_a_decision_variable_witness:
  "nx resting_spacecraft = 5 \<and> nu resting_spacecraft = 2
   \<and> xs_init resting_spacecraft euler_step ! 0 = [0, 0, 0, 0, 1]
   \<and> Xk (nlp_loop resting_spacecraft euler_step 0) = map Num [0, 0, 0, 0, 1]
   \<and> Sym (X_sym 0) 4 \<notin> set (w (ocp resting_spacecraft euler_step))"
proof -
  have x0: "x0_scaled resting_spacecraft = [0, 0, 0, 0, 1]"
    by (simp add: resting_spacecraft_def)
  from initial_state_is_not_a_decision_variable [of resting_spacecraft euler_step]
  have "xs_init resting_spacecraft euler_step ! 0 = x0_scaled resting_spacecraft"
    and "Xk (nlp_loop resting_spacecraft euler_step 0)
          = map Num (xs_init resting_spacecraft euler_step ! 0)"
    and "Sym (X_sym 0) 4 \<notin> set (w (ocp resting_spacecraft euler_step))"
    by blast+
  with x0 resting_shape(1,2) show ?thesis by simp
qed



subsection \<open>The constraints at the initial guess\<close>

lemma eval_state_at_guess:
  assumes "length (x0_scaled sc) = nx sc"
    and "\<And>x u. length x = nx sc \<Longrightarrow> length (step (f sc) x u h) = nx sc"
    and "k \<le> N"
  shows "map (eval Ff Lf (valuation (w (ocp sc step)) (w0 (ocp sc step)))) (Xk (nlp_loop sc step k))
           = xs_init sc step ! k"
proof (cases k)
  case 0
  then show ?thesis by (simp add: Xk_loop_0 comp_def)
next
  case (Suc j)
  have rows: "length (xs_init sc step ! Suc i) = nx sc" if "i < N" for i
    using assms(2,1) that by (intro length_xs_init_row) simp_all
  have j: "j < N" using Suc assms(3) by simp
  have "map (eval Ff Lf (valuation (w (nlp_loop sc step N)) (w0 (nlp_loop sc step N))))
          (MX_sym (X_sym (Suc j)) (nx sc)) = xs_init sc step ! Suc j"
    using rows j valuation_at_guess(2) [of N sc step j, OF rows]
    by (intro map_eval_MX_sym) simp_all
  then show ?thesis by (simp add: Suc Xk_loop_Suc ocp_unchanged)
qed

lemma eval_control_at_guess:
  assumes "length (x0_scaled sc) = nx sc"
    and "\<And>x u. length x = nx sc \<Longrightarrow> length (step (f sc) x u h) = nx sc"
    and "k < N"
  shows "map (eval Ff Lf (valuation (w (ocp sc step)) (w0 (ocp sc step)))) (MX_sym (U_sym k) (nu sc))
           = us_init sc ! k"
proof -
  have rows: "length (xs_init sc step ! Suc i) = nx sc" if "i < N" for i
    using assms(2,1) that by (intro length_xs_init_row) simp_all
  have "map (eval Ff Lf (valuation (w (nlp_loop sc step N)) (w0 (nlp_loop sc step N))))
          (MX_sym (U_sym k) (nu sc)) = us_init sc ! k"
    using assms(3) valuation_at_guess(1) [of N sc step k, OF rows]
    by (intro map_eval_MX_sym) (simp_all add: length_us_init_row)
  then show ?thesis by (simp add: ocp_unchanged)
qed

lemma continuity_at_guess:
  assumes "length (x0_scaled sc) = nx sc"
    and "\<And>x u. length x = nx sc \<Longrightarrow> length (step (f sc) x u h) = nx sc"
    and "k < N" and "i < nx sc"
  shows "eval (F sc step) Lf (valuation (w (ocp sc step)) (w0 (ocp sc step)))
           (g (ocp sc step) ! (k * (1 + nx sc) + 1 + i)) = 0"
proof -
  have rows: "length (xs_init sc step ! Suc j) = nx sc" if "j < N" for j
    using assms(2,1) that by (intro length_xs_init_row) simp_all
  have x: "valuation (w (ocp sc step)) (w0 (ocp sc step)) (X_sym (Suc k)) i
      = xs_init sc step ! Suc k ! i"
    using valuation_at_guess(2) [of N sc step k, OF rows] assms(3,4) by (simp add: ocp_unchanged)
  show ?thesis
    unfolding ocp_g_continuity [OF assms(3,4)] using assms(3)
    by (simp add: x xs_init_Suc
          eval_state_at_guess [where sc = sc and step = step, OF assms(1,2)] eval_control_at_guess [where sc = sc and step = step, OF assms(1,2)])
qed

lemma circle_value_at_guess:
  assumes "length (x0_scaled sc) = nx sc"
    and "\<And>x u. length x = nx sc \<Longrightarrow> length (step (f sc) x u h) = nx sc"
    and "k < N" and "2 \<le> nu sc"
  shows "eval Ff Lf (valuation (w (ocp sc step)) (w0 (ocp sc step)))
           (g (ocp sc step) ! (k * (1 + nx sc)))
         = (us_init sc ! k ! 0)^2 + (us_init sc ! k ! 1)^2"
proof -
  have rows: "length (xs_init sc step ! Suc j) = nx sc" if "j < N" for j
    using assms(2,1) that by (intro length_xs_init_row) simp_all
  have u: "valuation (w (ocp sc step)) (w0 (ocp sc step)) (U_sym k) 0 = us_init sc ! k ! 0"
    "valuation (w (ocp sc step)) (w0 (ocp sc step)) (U_sym k) 1 = us_init sc ! k ! 1"
    using valuation_at_guess(1) [of N sc step k, OF rows] assms(3,4)
    by (simp_all add: ocp_unchanged)
  have e: "MX_sym (U_sym k) (nu sc) ! 0 = Sym (U_sym k) 0"
    "MX_sym (U_sym k) (nu sc) ! 1 = Sym (U_sym k) 1"
    using assms(4) by simp_all
  show ?thesis
    unfolding ocp_g_circle [OF assms(3)] e by (simp only: eval.simps u)
qed

lemma terminal_entries:
  "g (ocp sc step) ! (N * (1 + nx sc)) = Xk_end (nlp_loop sc step N) ! 0"
  "g (ocp sc step) ! (N * (1 + nx sc) + 1) = Xk_end (nlp_loop sc step N) ! 1"
  "g (ocp sc step) ! (N * (1 + nx sc) + 2) = Xk_end (nlp_loop sc step N) ! 3"
  "lbg (ocp sc step) ! (N * (1 + nx sc)) = altitude_T"
  by (simp_all add: ocp_g ocp_lbg nth_append length_g_loop length_lbg_loop)

lemma terminal_value_at_guess:
  assumes "length (x0_scaled sc) = nx sc"
    and "\<And>x u. length x = nx sc \<Longrightarrow> length (step (f sc) x u h) = nx sc"
    and "i < nx sc"
  shows "eval (F sc step) Lf (valuation (w (ocp sc step)) (w0 (ocp sc step)))
           (Xk_end (nlp_loop sc step N) ! i) = xs_init sc step ! N ! i"
proof -
  have n: "N - 1 < N" "Suc (N - 1) = N" by (simp_all add: N_def)
  show ?thesis
    using xs_init_Suc [OF n(1), of sc step] n
    by (simp add: Xk_end_entries [OF assms(3)] eval_state_at_guess [where sc = sc and step = step, OF assms(1,2)]
          eval_control_at_guess [where sc = sc and step = step, OF assms(1,2)])
qed

text \<open>
  What forward simulation gives: \<open>xs[0]\<close> is the scaled initial state and
  \<open>xs[k+1] = F(xs[k], us_init[k])\<close> for every \<open>k\<close> of \<open>0..N-1\<close>, with the \<open>F\<close> of the shooting
  constraints, and \<open>w0\<close> stacks \<open>us_init[k]\<close> and \<open>xs[k+1]\<close>. At \<open>w0\<close> every continuity
  constraint \<open>Xk_end - Xk\<close> evaluates to zero, every circle constraint lies within
  \<open>[0, 1]\<close>, and the three terminal constraints evaluate to entries 0, 1 and 3 of the
  simulated final state \<open>xs[N]\<close>. Whether these meet the terminal values, and the states
  their bounds, rests on the values of the model class and of the integrator.
\<close>

lemma guess_by_forward_simulation:
  assumes "length (x0_scaled sc) = nx sc"
    and "\<And>x u. length x = nx sc \<Longrightarrow> length (step (f sc) x u h) = nx sc"
  shows "xs_init sc step ! 0 = x0_scaled sc
       \<and> (\<forall>k<N. xs_init sc step ! (k + 1) = F sc step (xs_init sc step ! k) (us_init sc ! k))
       \<and> w0 (ocp sc step) = concat (map (\<lambda>k. us_init sc ! k @ xs_init sc step ! (k + 1)) [0..<N])
       \<and> (\<forall>k<N. \<forall>i<nx sc.
             eval (F sc step) Lf (valuation (w (ocp sc step)) (w0 (ocp sc step)))
               (g (ocp sc step) ! (k * (1 + nx sc) + 1 + i)) = 0)
       \<and> (2 \<le> nu sc \<longrightarrow> (\<forall>k<N.
             0 \<le> eval (F sc step) Lf (valuation (w (ocp sc step)) (w0 (ocp sc step)))
                    (g (ocp sc step) ! (k * (1 + nx sc)))
             \<and> eval (F sc step) Lf (valuation (w (ocp sc step)) (w0 (ocp sc step)))
                    (g (ocp sc step) ! (k * (1 + nx sc))) \<le> 1))
       \<and> (4 \<le> nx sc \<longrightarrow>
             eval (F sc step) Lf (valuation (w (ocp sc step)) (w0 (ocp sc step)))
               (g (ocp sc step) ! (N * (1 + nx sc))) = xs_init sc step ! N ! 0
           \<and> eval (F sc step) Lf (valuation (w (ocp sc step)) (w0 (ocp sc step)))
               (g (ocp sc step) ! (N * (1 + nx sc) + 1)) = xs_init sc step ! N ! 1
           \<and> eval (F sc step) Lf (valuation (w (ocp sc step)) (w0 (ocp sc step)))
               (g (ocp sc step) ! (N * (1 + nx sc) + 2)) = xs_init sc step ! N ! 3)"
proof -
  note shape = assms
  have sim: "\<forall>k<N. xs_init sc step ! (k + 1) = F sc step (xs_init sc step ! k) (us_init sc ! k)"
    by (simp add: xs_init_Suc)
  have guess: "w0 (ocp sc step) =
      concat (map (\<lambda>k. us_init sc ! k @ xs_init sc step ! (k + 1)) [0..<N])"
    by (simp add: ocp_unchanged w0_loop)
  have cont: "\<forall>k<N. \<forall>i<nx sc.
             eval (F sc step) Lf (valuation (w (ocp sc step)) (w0 (ocp sc step)))
               (g (ocp sc step) ! (k * (1 + nx sc) + 1 + i)) = 0"
    using continuity_at_guess [where sc = sc and step = step, OF shape] by blast
  have circ: "0 \<le> eval (F sc step) Lf (valuation (w (ocp sc step)) (w0 (ocp sc step)))
                    (g (ocp sc step) ! (k * (1 + nx sc)))
             \<and> eval (F sc step) Lf (valuation (w (ocp sc step)) (w0 (ocp sc step)))
                    (g (ocp sc step) ! (k * (1 + nx sc))) \<le> 1"
    if "2 \<le> nu sc" and "k < N" for k
  proof -
    have "eval (F sc step) Lf (valuation (w (ocp sc step)) (w0 (ocp sc step)))
        (g (ocp sc step) ! (k * (1 + nx sc))) = (us_init sc ! k ! 0)^2 + (us_init sc ! k ! 1)^2"
      using shape that(2,1) by (rule circle_value_at_guess)
    then show ?thesis
      using circle_at_guess [OF that(2,1)] by simp
  qed
  have last3: "eval (F sc step) Lf (valuation (w (ocp sc step)) (w0 (ocp sc step)))
               (g (ocp sc step) ! (N * (1 + nx sc))) = xs_init sc step ! N ! 0
           \<and> eval (F sc step) Lf (valuation (w (ocp sc step)) (w0 (ocp sc step)))
               (g (ocp sc step) ! (N * (1 + nx sc) + 1)) = xs_init sc step ! N ! 1
           \<and> eval (F sc step) Lf (valuation (w (ocp sc step)) (w0 (ocp sc step)))
               (g (ocp sc step) ! (N * (1 + nx sc) + 2)) = xs_init sc step ! N ! 3"
    if "4 \<le> nx sc"
    unfolding terminal_entries
    using that terminal_value_at_guess [where sc = sc and step = step, OF shape] by simp
  from xs_init_0 sim guess cont circ last3 show ?thesis by blast
qed

end
